theory Spec2Isabelle
  imports Main "HOL-Library.Word" "HOL-Library.Sublist"
begin

section \<open>The PancakeSwap substream driver (cmd/substream-exchange/cli/root.go)\<close>

text \<open>
  The file under verification is the command-line driver: \<^verbatim>\<open>runRoot\<close> parses the block
  count, sets up the stores, optionally reloads their state, and hands a per-block handler
  (\<^verbatim>\<open>handlerFactory\<close>) to the block source; \<^verbatim>\<open>setupPrintPairUpdates\<close> starts a
  subscriber that prints the deltas of the pairs store.

  The packages the driver calls (\<^verbatim>\<open>state\<close>, \<^verbatim>\<open>subscription\<close>, \<^verbatim>\<open>exchange\<close>,
  \<^verbatim>\<open>indexer\<close>, \<^verbatim>\<open>dstore\<close>, \<^verbatim>\<open>firehose\<close>) are collaborators: each of their operations
  is a parameter of the model (a field of the record \<open>env\<close> below) acting on a world state
  \<open>'w\<close> that holds everything the driver reaches through pointers: the store objects, the
  hub, the RPC cache, the intrinsics and durable storage. A store pointer
  \<^verbatim>\<open>p.stores[name]\<close> is modelled by the store's name, which addresses the object in the
  world. Output to the console by the handler is not modelled.
\<close>

subsection \<open>Go errors\<close>

text \<open>
  An error value is \<^verbatim>\<open>io.EOF\<close>, an error made by a collaborator (identified by its
  message), \<^verbatim>\<open>fmt.Errorf(ctx + "%w", err)\<close> (which wraps \<open>err\<close>), or
  \<^verbatim>\<open>fmt.Errorf(msg)\<close> without \<^verbatim>\<open>%w\<close> (which wraps nothing).
\<close>

datatype error =
    EOF
  | Failure string
  | Wrapped string error
  | Plain string

text \<open>\<^verbatim>\<open>err.Error()\<close>: the message.\<close>

fun Error :: "error \<Rightarrow> string" where
  "Error EOF = ''EOF''"
| "Error (Failure m) = m"
| "Error (Wrapped ctx e) = ctx @ Error e"
| "Error (Plain m) = m"

text \<open>\<^verbatim>\<open>errors.Unwrap(err)\<close>: the error wrapped by \<^verbatim>\<open>%w\<close>, if any.\<close>

fun Unwrap :: "error \<Rightarrow> error option" where
  "Unwrap (Wrapped ctx e) = Some e"
| "Unwrap _ = None"

text \<open>\<^verbatim>\<open>errors.Is(err, target)\<close>: \<open>target\<close> is on the chain of \<open>err\<close>.\<close>

fun Is :: "error \<Rightarrow> error \<Rightarrow> bool" where
  "Is (Wrapped ctx e) t = (Wrapped ctx e = t \<or> Is e t)"
| "Is e t = (e = t)"

text \<open>
  How a Go function call ends: it returns its \<^verbatim>\<open>error\<close> result (\<open>None\<close> is
  \<^verbatim>\<open>nil\<close>), it panics, or the process exits through \<^verbatim>\<open>zlog.Fatal\<close>.
\<close>

datatype outcome = Returned "error option" | Panicked | Exited

subsection \<open>Library functions of Go used by the driver\<close>

text \<open>\<^verbatim>\<open>strings.HasPrefix(s, prefix)\<close> is
  \<^verbatim>\<open>len(s) >= len(prefix) && s[:len(prefix)] == prefix\<close>.\<close>

definition HasPrefix :: "string \<Rightarrow> string \<Rightarrow> bool" where
  "HasPrefix s pre = (length pre \<le> length s \<and> take (length pre) s = pre)"

text \<open>
  \<^verbatim>\<open>strconv.ParseInt(s, 10, 64)\<close>: an optional sign, then one or more decimal digits;
  the value must fit a signed 64-bit integer. \<open>None\<close> stands for a non-nil error
  (syntax or range).
\<close>

definition digit_of :: "char \<Rightarrow> nat option" where
  "digit_of c =
     (let k = (of_char c :: nat) in if 48 \<le> k \<and> k \<le> 57 then Some (k - 48) else None)"

fun parse_digits :: "nat \<Rightarrow> string \<Rightarrow> nat option" where
  "parse_digits acc [] = Some acc"
| "parse_digits acc (c # cs) =
     (case digit_of c of None \<Rightarrow> None | Some d \<Rightarrow> parse_digits (10 * acc + d) cs)"

definition ParseInt :: "string \<Rightarrow> int option" where
  "ParseInt s =
     (case s of
        [] \<Rightarrow> None
      | c # cs \<Rightarrow>
          (let neg = (c = CHR ''-'');
               ds = (if c = CHR ''+'' \<or> c = CHR ''-'' then cs else s)
           in if ds = [] then None
              else (case parse_digits 0 ds of
                      None \<Rightarrow> None
                    | Some n \<Rightarrow>
                        if neg then (if 2 ^ 63 < n then None else Some (- int n))
                        else (if 2 ^ 63 \<le> n then None else Some (int n)))))"

text \<open>The verb \<^verbatim>\<open>%d\<close> of \<^verbatim>\<open>fmt\<close> on an unsigned integer: its decimal digits.\<close>

fun decimal :: "nat \<Rightarrow> string" where
  "decimal n =
     (if n < 10 then [char_of (48 + n)] else decimal (n div 10) @ [char_of (48 + n mod 10)])"

declare decimal.simps [simp del]

type_synonym uint64 = "64 word"
type_synonym int64 = "64 word"

subsection \<open>The pair-updates subscriber\<close>

text \<open>
  A delta of the \<^verbatim>\<open>state\<close> package; the driver reads only its \<^verbatim>\<open>Key\<close>.
\<close>

record 'p delta =
  Key :: string
  Payload :: 'p

text \<open>
  The goroutine of \<^verbatim>\<open>setupPrintPairUpdates\<close>, run on the results that the successive
  calls of \<^verbatim>\<open>pairSubscriber.Next()\<close> deliver. It returns the deltas handed to
  \<^verbatim>\<open>PrintDelta\<close>, in order, and whether the loop left through \<^verbatim>\<open>zlog.Fatal\<close>
  (\<open>Some err\<close>) or is waiting in \<^verbatim>\<open>Next\<close> for the next delivery (\<open>None\<close>).
\<close>

fun printPairUpdates :: "(error + 'p delta) list \<Rightarrow> 'p delta list \<times> error option" where
  "printPairUpdates [] = ([], None)"
| "printPairUpdates (Inl err # rest) = ([], Some err)"
| "printPairUpdates (Inr d # rest) =
     (if \<not> HasPrefix (Key d) ''pair'' then printPairUpdates rest
      else (let (printed, fatal) = printPairUpdates rest in (d # printed, fatal)))"

subsection \<open>Blocks, the pipeline and its collaborators\<close>

text \<open>
  A \<^verbatim>\<open>bstream.Block\<close>: its number, and what \<^verbatim>\<open>block.ToProtocol()\<close> holds. The
  handler asserts the type \<^verbatim>\<open>*pbcodec.Block\<close> without the comma-ok form, so a block whose
  payload is not one (\<open>None\<close>) makes the assertion panic.
\<close>

record 'pb block =
  Number :: uint64
  Protocol :: "'pb option"

text \<open>
  The \<^verbatim>\<open>Pipeline\<close> struct. \<open>stores\<close> is the key set of the map \<^verbatim>\<open>p.stores\<close>; the
  builders themselves, like the RPC client, the cache, the hub and the intrinsics, are
  objects of the world.
\<close>

record Pipeline =
  startBlockNum :: uint64
  stores :: "string set"

text \<open>
  Go leaves the order in which \<^verbatim>\<open>range\<close> visits a map unspecified; it visits every key
  once. Each \<^verbatim>\<open>range p.stores\<close> loop of the model takes the order as an argument, and
  the theorems hold for every order that \<open>iteration\<close> admits.
\<close>

definition iteration :: "string set \<Rightarrow> string list \<Rightarrow> bool" where
  "iteration S ks = (distinct ks \<and> set ks = S)"

text \<open>
  The calls the driver makes on its collaborators, with the arguments that identify them
  (a store argument is the store's name). A trace lists the calls of a run in the order
  they were made, each with the error it reported (\<open>None\<close> when it reported none).
\<close>

datatype 'd call =
    Call_NewDBinStore string
  | Call_NewStore string
  | Call_Load
  | Call_Init string uint64
  | Call_RegisterTopic string
  | Call_Subscribe string
  | Call_Run
  | Call_WriteState string
  | Call_Save
  | Call_SetCurrentBlock
  | Call_PairExtractor_Map
  | Call_Pairs_BuildState string
  | Call_BroadcastDeltas string "'d list"
  | Call_Reserves_Map string
  | Call_Prices_BuildState string string
  | Call_Swaps_Map string string
  | Call_TotalPairs_BuildState string
  | Call_Volume24h_BuildState string
  | Call_StoreBlock string
  | Call_Flush string

type_synonym 'd trace = "('d call \<times> error option) list"

type_synonym ('pb, 'd, 'w) handler =
  "string list \<Rightarrow> string list \<Rightarrow> 'pb block \<Rightarrow> 'w \<Rightarrow> outcome \<times> 'w \<times> 'd trace"

text \<open>
  The collaborators. Every operation takes the world and returns the world it leaves;
  an operation that can fail also returns its error. \<^verbatim>\<open>WriteState\<close>, \<^verbatim>\<open>Save\<close> and
  \<^verbatim>\<open>Load\<close> are called as statements by the driver: whatever failure they meet
  (\<open>Some err\<close>) is not a value the driver receives.
\<close>

record ('pb, 'pairs, 'res, 'swaps, 'd, 'w) env =
  NewDBinStore :: "string \<Rightarrow> 'w \<Rightarrow> error option \<times> 'w"
  NewStore :: "string \<Rightarrow> 'w \<Rightarrow> error option \<times> 'w"
  Load :: "'w \<Rightarrow> error option \<times> 'w"
  Init :: "string \<Rightarrow> uint64 \<Rightarrow> 'w \<Rightarrow> error option \<times> 'w"
  RegisterTopic :: "string \<Rightarrow> 'w \<Rightarrow> error option \<times> 'w"
  Subscribe :: "string \<Rightarrow> 'w \<Rightarrow> error option \<times> 'w"
  Run :: "uint64 \<Rightarrow> ('pb, 'd, 'w) handler \<Rightarrow> 'w \<Rightarrow> error option \<times> 'w"
  WriteState :: "string \<Rightarrow> 'pb block \<Rightarrow> 'w \<Rightarrow> error option \<times> 'w"
  Save :: "'w \<Rightarrow> error option \<times> 'w"
  SetCurrentBlock :: "'pb \<Rightarrow> 'w \<Rightarrow> 'w"
  PairExtractor_Map :: "'pb \<Rightarrow> 'w \<Rightarrow> (error + 'pairs) \<times> 'w"
  PairsStateBuilder_BuildState :: "'pairs \<Rightarrow> string \<Rightarrow> 'w \<Rightarrow> error option \<times> 'w"
  Deltas :: "string \<Rightarrow> 'w \<Rightarrow> 'd list"
  BroadcastDeltas :: "string \<Rightarrow> 'd list \<Rightarrow> 'w \<Rightarrow> error option \<times> 'w"
  ReservesExtractor_Map :: "'pb \<Rightarrow> string \<Rightarrow> 'w \<Rightarrow> (error + 'res) \<times> 'w"
  PricesStateBuilder_BuildState :: "'res \<Rightarrow> string \<Rightarrow> string \<Rightarrow> 'w \<Rightarrow> error option \<times> 'w"
  SwapsExtractor_Map :: "'pb \<Rightarrow> string \<Rightarrow> string \<Rightarrow> 'w \<Rightarrow> (error + 'swaps) \<times> 'w"
  TotalPairsStateBuilder_BuildState ::
    "'pairs \<Rightarrow> 'swaps \<Rightarrow> string \<Rightarrow> 'w \<Rightarrow> error option \<times> 'w"
  PCSVolume24hStateBuilder_BuildState ::
    "'pb \<Rightarrow> 'swaps \<Rightarrow> string \<Rightarrow> 'w \<Rightarrow> error option \<times> 'w"
  StoreBlock :: "string \<Rightarrow> 'pb block \<Rightarrow> 'w \<Rightarrow> error option \<times> 'w"
  Flush :: "string \<Rightarrow> 'w \<Rightarrow> 'w"

subsection \<open>The block handler (handlerFactory)\<close>

text \<open>The loop of the stop branch: \<^verbatim>\<open>s.WriteState(ctx, block)\<close> on every store, the
  result dropped.\<close>

fun writeStates ::
  "('pb, 'pairs, 'res, 'swaps, 'd, 'w) env \<Rightarrow> string list \<Rightarrow> 'pb block \<Rightarrow> 'w \<Rightarrow> 'w \<times> 'd trace"
where
  "writeStates E [] block w = (w, [])"
| "writeStates E (s # ss) block w =
     (let (r, w1) = WriteState E s block w;
          (w2, tr) = writeStates E ss block w1
      in (w2, (Call_WriteState s, r) # tr))"

text \<open>The \<^verbatim>\<open>StoreBlock\<close> loop: the first error is returned as it is, and the remaining
  stores are not visited.\<close>

fun storeBlocks ::
  "('pb, 'pairs, 'res, 'swaps, 'd, 'w) env \<Rightarrow> string list \<Rightarrow> 'pb block \<Rightarrow> 'w
     \<Rightarrow> error option \<times> 'w \<times> 'd trace"
where
  "storeBlocks E [] block w = (None, w, [])"
| "storeBlocks E (s # ss) block w =
     (case StoreBlock E s block w of
        (Some err, w1) \<Rightarrow> (Some err, w1, [(Call_StoreBlock s, Some err)])
      | (None, w1) \<Rightarrow>
          (let (r, w2, tr) = storeBlocks E ss block w1
           in (r, w2, (Call_StoreBlock s, None) # tr)))"

text \<open>The \<^verbatim>\<open>Flush\<close> loop.\<close>

fun flushAll ::
  "('pb, 'pairs, 'res, 'swaps, 'd, 'w) env \<Rightarrow> string list \<Rightarrow> 'w \<Rightarrow> 'w \<times> 'd trace"
where
  "flushAll E [] w = (w, [])"
| "flushAll E (s # ss) w =
     (let (w2, tr) = flushAll E ss (Flush E s w) in (w2, (Call_Flush s, None) # tr))"

text \<open>
  The closure returned by \<^verbatim>\<open>handlerFactory(blockCount)\<close>. \<open>ks1\<close> is the order of the
  first \<^verbatim>\<open>range p.stores\<close> loop the call runs (\<^verbatim>\<open>WriteState\<close> in the stop branch,
  \<^verbatim>\<open>StoreBlock\<close> otherwise), \<open>ks2\<close> the order of the \<^verbatim>\<open>Flush\<close> loop. The sum
  \<^verbatim>\<open>p.startBlockNum+blockCount\<close> is a \<^verbatim>\<open>uint64\<close> sum and wraps around.
\<close>

definition handler ::
  "('pb, 'pairs, 'res, 'swaps, 'd, 'w) env \<Rightarrow> Pipeline \<Rightarrow> uint64 \<Rightarrow> ('pb, 'd, 'w) handler"
where
  "handler E p blockCount ks1 ks2 block w0 =
    (if startBlockNum p + blockCount \<le> Number block then
       (let (w1, t1) = writeStates E ks1 block w0;
            (r, w2) = Save E w1
        in (Returned (Some EOF), w2, t1 @ [(Call_Save, r)]))
     else
       (case Protocol block of
          None \<Rightarrow> (Panicked, w0, [])
        | Some blk \<Rightarrow>
       (let w1 = SetCurrentBlock E blk w0;
            t1 = [(Call_SetCurrentBlock, None)]
        in case PairExtractor_Map E blk w1 of
          (Inl err, w2) \<Rightarrow>
            (Returned (Some (Wrapped ''extracting pairs: '' err)), w2,
             t1 @ [(Call_PairExtractor_Map, Some err)])
        | (Inr pairs, w2) \<Rightarrow>
       (let t2 = t1 @ [(Call_PairExtractor_Map, None)]
        in case PairsStateBuilder_BuildState E pairs ''pairs'' w2 of
          (Some err, w3) \<Rightarrow>
            (Returned (Some (Wrapped ''processing pair cache: '' err)), w3,
             t2 @ [(Call_Pairs_BuildState ''pairs'', Some err)])
        | (None, w3) \<Rightarrow>
       (let t3 = t2 @ [(Call_Pairs_BuildState ''pairs'', None)];
            ds = Deltas E ''pairs'' w3
        in case BroadcastDeltas E ''pairs'' ds w3 of
          (Some err, w4) \<Rightarrow>
            (Returned (Some (Plain ''broadcasting deltas for topic [pairs]'')), w4,
             t3 @ [(Call_BroadcastDeltas ''pairs'' ds, Some err)])
        | (None, w4) \<Rightarrow>
       (let t4 = t3 @ [(Call_BroadcastDeltas ''pairs'' ds, None)]
        in case ReservesExtractor_Map E blk ''pairs'' w4 of
          (Inl err, w5) \<Rightarrow>
            (Returned (Some (Wrapped ''processing reserves extractor: '' err)), w5,
             t4 @ [(Call_Reserves_Map ''pairs'', Some err)])
        | (Inr reserveUpdates, w5) \<Rightarrow>
       (let t5 = t4 @ [(Call_Reserves_Map ''pairs'', None)]
        in case PricesStateBuilder_BuildState E reserveUpdates ''pairs'' ''prices'' w5 of
          (Some err, w6) \<Rightarrow>
            (Returned (Some (Wrapped ''pairs price building: '' err)), w6,
             t5 @ [(Call_Prices_BuildState ''pairs'' ''prices'', Some err)])
        | (None, w6) \<Rightarrow>
       (let t6 = t5 @ [(Call_Prices_BuildState ''pairs'' ''prices'', None)]
        in case SwapsExtractor_Map E blk ''pairs'' ''prices'' w6 of
          (Inl err, w7) \<Rightarrow>
            (Returned (Some (Wrapped ''swaps extractor: '' err)), w7,
             t6 @ [(Call_Swaps_Map ''pairs'' ''prices'', Some err)])
        | (Inr swaps, w7) \<Rightarrow>
       (let t7 = t6 @ [(Call_Swaps_Map ''pairs'' ''prices'', None)]
        in case TotalPairsStateBuilder_BuildState E pairs swaps ''total_pairs'' w7 of
          (Some err, w8) \<Rightarrow>
            (Returned (Some (Wrapped ''processing total pairs: '' err)), w8,
             t7 @ [(Call_TotalPairs_BuildState ''total_pairs'', Some err)])
        | (None, w8) \<Rightarrow>
       (let t8 = t7 @ [(Call_TotalPairs_BuildState ''total_pairs'', None)]
        in case PCSVolume24hStateBuilder_BuildState E blk swaps ''volume24h'' w8 of
          (Some err, w9) \<Rightarrow>
            (Returned (Some (Wrapped ''volume24 builder: '' err)), w9,
             t8 @ [(Call_Volume24h_BuildState ''volume24h'', Some err)])
        | (None, w9) \<Rightarrow>
       (let t9 = t8 @ [(Call_Volume24h_BuildState ''volume24h'', None)]
        in case storeBlocks E ks1 block w9 of
          (Some err, w10, ts) \<Rightarrow> (Returned (Some err), w10, t9 @ ts)
        | (None, w10, ts) \<Rightarrow>
       (let (w11, tf) = flushAll E ks2 w10
        in (Returned None, w11, t9 @ ts @ tf)))))))))))))"

subsection \<open>Startup (runRoot)\<close>

text \<open>
  What \<^verbatim>\<open>runRoot\<close> reads from the configuration (\<^verbatim>\<open>viper\<close>): the start block, a
  signed 64-bit integer, and the locations of the stores.
\<close>

record config =
  start_block :: int64
  blocks_store_url :: string
  irr_indexes_url :: string
  state_store_url :: string

text \<open>The names of the stores \<^verbatim>\<open>runRoot\<close> creates.\<close>

definition storeNames :: "string list" where
  "storeNames = [''pairs'', ''total_pairs'', ''prices'', ''volume24h'']"

text \<open>
  Lines 39 to 46: the block count. With no argument it is 1000. The error path formats
  \<^verbatim>\<open>args[1]\<close>, an index that Go checks at run time: with a single argument the
  expression panics. \<^verbatim>\<open>uint64(val)\<close> keeps the 64 bits of the signed value.
\<close>

definition blockCountArg :: "string list \<Rightarrow> outcome + uint64" where
  "blockCountArg args =
     (if 0 < length args then
        (case ParseInt (args ! 0) of
           None \<Rightarrow>
             (if 1 < length args
              then Inl (Returned (Some (Plain (''invalid block count '' @ args ! 1))))
              else Inl Panicked)
         | Some val \<Rightarrow> Inr (word_of_int val))
      else Inr 1000)"

text \<open>The text that the format
  \<^verbatim>\<open>"could not load state for store %s at block num %d: %w"\<close> puts before the wrapped
  error.\<close>

definition loadStateContext :: "string \<Rightarrow> uint64 \<Rightarrow> string" where
  "loadStateContext storeName n =
     ''could not load state for store '' @ storeName @ '' at block num ''
       @ decimal (unat n) @ '': ''"

text \<open>\<^verbatim>\<open>loadStateFromDisk\<close>: \<^verbatim>\<open>Init\<close> on the stores in the order \<open>ks\<close> of the
  \<^verbatim>\<open>range\<close>, up to the first failure.\<close>

fun loadStateFromDisk ::
  "('pb, 'pairs, 'res, 'swaps, 'd, 'w) env \<Rightarrow> string list \<Rightarrow> uint64 \<Rightarrow> 'w
     \<Rightarrow> error option \<times> 'w \<times> 'd trace"
where
  "loadStateFromDisk E [] n w = (None, w, [])"
| "loadStateFromDisk E (storeName # ss) n w =
     (case Init E storeName n w of
        (Some err, w1) \<Rightarrow>
          (Some (Wrapped (loadStateContext storeName n) err),
           w1, [(Call_Init storeName n, Some err)])
      | (None, w1) \<Rightarrow>
          (let (r, w2, tr) = loadStateFromDisk E ss n w1
           in (r, w2, (Call_Init storeName n, None) # tr)))"

text \<open>\<^verbatim>\<open>setupSubscriptionHub\<close>: one topic per store; a registration error ends the process
  through \<^verbatim>\<open>zlog.Fatal\<close> (\<open>Some err\<close> in the result).\<close>

fun setupSubscriptionHub ::
  "('pb, 'pairs, 'res, 'swaps, 'd, 'w) env \<Rightarrow> string list \<Rightarrow> 'w
     \<Rightarrow> error option \<times> 'w \<times> 'd trace"
where
  "setupSubscriptionHub E [] w = (None, w, [])"
| "setupSubscriptionHub E (storeName # ss) w =
     (case RegisterTopic E storeName w of
        (Some err, w1) \<Rightarrow> (Some err, w1, [(Call_RegisterTopic storeName, Some err)])
      | (None, w1) \<Rightarrow>
          (let (r, w2, tr) = setupSubscriptionHub E ss w1
           in (r, w2, (Call_RegisterTopic storeName, None) # tr)))"

text \<open>\<^verbatim>\<open>setupPrintPairUpdates\<close>: the subscription to the topic of the pairs store, fatal
  when it fails. The goroutine it starts is \<open>printPairUpdates\<close>; it runs beside the
  driver and is not part of the sequential run.\<close>

definition setupPrintPairUpdates ::
  "('pb, 'pairs, 'res, 'swaps, 'd, 'w) env \<Rightarrow> 'w \<Rightarrow> error option \<times> 'w \<times> 'd trace"
where
  "setupPrintPairUpdates E w =
     (let (r, w1) = Subscribe E ''pairs'' w in (r, w1, [(Call_Subscribe ''pairs'', r)]))"

text \<open>
  \<^verbatim>\<open>runRoot\<close>. \<open>genesisBlock\<close> is the package constant the start block is compared
  with (its declaration is in another file of the package). \<open>ksInit\<close> and \<open>ksTopics\<close>
  are the orders of the \<^verbatim>\<open>range\<close> loops over the stores in \<^verbatim>\<open>loadStateFromDisk\<close> and
  \<^verbatim>\<open>setupSubscriptionHub\<close>. Constructors that cannot fail (the HTTP and RPC clients, the
  cache, the intrinsics, the stores, the hub, the subscriber) only allocate objects of the
  world and are not calls of the trace.
\<close>

definition runRoot ::
  "('pb, 'pairs, 'res, 'swaps, 'd, 'w) env \<Rightarrow> int64 \<Rightarrow> config \<Rightarrow> string list
     \<Rightarrow> string list \<Rightarrow> string list \<Rightarrow> 'w \<Rightarrow> outcome \<times> 'w \<times> 'd trace"
where
  "runRoot E genesisBlock cfg args ksInit ksTopics w0 =
    (case blockCountArg args of
       Inl out \<Rightarrow> (out, w0, [])
     | Inr blockCount \<Rightarrow>
    (let startBlockNum = start_block cfg;
         forceLoadState = (genesisBlock <s startBlockNum)
     in case NewDBinStore E (blocks_store_url cfg) w0 of
       (Some err, w1) \<Rightarrow>
         (Returned (Some (Wrapped ''setting up blocks store: '' err)), w1,
          [(Call_NewDBinStore (blocks_store_url cfg), Some err)])
     | (None, w1) \<Rightarrow>
    (let t1 = [(Call_NewDBinStore (blocks_store_url cfg), None)]
     in case NewStore E (irr_indexes_url cfg) w1 of
       (Some err, w2) \<Rightarrow>
         (Returned (Some (Wrapped ''setting up irr blocks store: '' err)), w2,
          t1 @ [(Call_NewStore (irr_indexes_url cfg), Some err)])
     | (None, w2) \<Rightarrow>
    (let t2 = t1 @ [(Call_NewStore (irr_indexes_url cfg), None)]
     in case NewStore E ''./rpc-cache'' w2 of
       (Some err, w3) \<Rightarrow>
         (Returned (Some (Wrapped ''setting up store for rpc-cache: '' err)), w3,
          t2 @ [(Call_NewStore ''./rpc-cache'', Some err)])
     | (None, w3) \<Rightarrow>
    (let t3 = t2 @ [(Call_NewStore ''./rpc-cache'', None)];
         (rl, w4) = Load E w3;
         t4 = t3 @ [(Call_Load, rl)]
     in case NewStore E (state_store_url cfg) w4 of
       (Some err, w5) \<Rightarrow>
         (Returned (Some (Wrapped ''setting up store for data: '' err)), w5,
          t4 @ [(Call_NewStore (state_store_url cfg), Some err)])
     | (None, w5) \<Rightarrow>
    (let t5 = t4 @ [(Call_NewStore (state_store_url cfg), None)];
         storesMap = set storeNames
     in case (if forceLoadState then loadStateFromDisk E ksInit startBlockNum w5
              else (None, w5, [])) of
       (Some err, w6, ti) \<Rightarrow> (Returned (Some err), w6, t5 @ ti)
     | (None, w6, ti) \<Rightarrow>
    (let pipe = \<lparr>startBlockNum = startBlockNum, stores = storesMap\<rparr>
     in case setupSubscriptionHub E ksTopics w6 of
       (Some err, w7, th) \<Rightarrow> (Exited, w7, t5 @ ti @ th)
     | (None, w7, th) \<Rightarrow>
    (case setupPrintPairUpdates E w7 of
       (Some err, w8, ts) \<Rightarrow> (Exited, w8, t5 @ ti @ th @ ts)
     | (None, w8, ts) \<Rightarrow>
    (case Run E startBlockNum (handler E pipe blockCount) w8 of
       (Some err, w9) \<Rightarrow>
         (Returned (Some (Wrapped ''running the firehose: '' err)), w9,
          t5 @ ti @ th @ ts @ [(Call_Run, Some err)])
     | (None, w9) \<Rightarrow>
         (Returned None, w9, t5 @ ti @ th @ ts @ [(Call_Run, None)]))))))))))"

subsection \<open>Predicates on traces\<close>

text \<open>The four state-building calls, in the order the handler text has them.\<close>

fun isBuild :: "'d call \<Rightarrow> bool" where
  "isBuild (Call_Pairs_BuildState s) = True"
| "isBuild (Call_Prices_BuildState s1 s2) = True"
| "isBuild (Call_TotalPairs_BuildState s) = True"
| "isBuild (Call_Volume24h_BuildState s) = True"
| "isBuild _ = False"

definition buildOrder :: "'d call list" where
  "buildOrder =
     [Call_Pairs_BuildState ''pairs'', Call_Prices_BuildState ''pairs'' ''prices'',
      Call_TotalPairs_BuildState ''total_pairs'', Call_Volume24h_BuildState ''volume24h'']"

text \<open>The topics of the broadcasts of a run, in order.\<close>

fun broadcastTopics :: "'d call list \<Rightarrow> string list" where
  "broadcastTopics [] = []"
| "broadcastTopics (Call_BroadcastDeltas topic ds # cs) = topic # broadcastTopics cs"
| "broadcastTopics (c # cs) = broadcastTopics cs"

text \<open>
  Modelled from the spec: \<^verbatim>\<open>Flush\<close> of the \<^verbatim>\<open>state\<close> package, whose code is not in
  the file under verification. The spec says that it "clears the current block's delta
  buffer"; as a condition on an environment: the buffer of the flushed store is empty
  afterwards and the buffers of the other stores are as before.
\<close>

definition Flush_spec :: "('pb, 'pairs, 'res, 'swaps, 'd, 'w) env \<Rightarrow> bool" where
  "Flush_spec E =
     (\<forall>s w. Deltas E s (Flush E s w) = []
        \<and> (\<forall>s'. s' \<noteq> s \<longrightarrow> Deltas E s' (Flush E s w) = Deltas E s' w))"

subsection \<open>Calls in sequence\<close>

text \<open>
  A loop of the driver calls one operation on the stores of a list, each call in the world
  that the call before left. \<open>succeedAll f ks w\<close> says that none of these calls reports an
  error, \<open>reports f ks w\<close> lists what they report, and \<open>thread f ks w\<close> is the world
  that the last of them leaves.
\<close>

fun succeedAll :: "('s \<Rightarrow> 'w \<Rightarrow> error option \<times> 'w) \<Rightarrow> 's list \<Rightarrow> 'w \<Rightarrow> bool" where
  "succeedAll f [] w = True"
| "succeedAll f (s # ss) w = (fst (f s w) = None \<and> succeedAll f ss (snd (f s w)))"

fun reports :: "('s \<Rightarrow> 'w \<Rightarrow> error option \<times> 'w) \<Rightarrow> 's list \<Rightarrow> 'w \<Rightarrow> error option list" where
  "reports f [] w = []"
| "reports f (s # ss) w = fst (f s w) # reports f ss (snd (f s w))"

definition thread :: "('s \<Rightarrow> 'w \<Rightarrow> error option \<times> 'w) \<Rightarrow> 's list \<Rightarrow> 'w \<Rightarrow> 'w" where
  "thread f ss w = fold (\<lambda>s v. snd (f s v)) ss w"

subsection \<open>A sample environment\<close>

text \<open>
  A small instance of the collaborators, on which the model runs on concrete inputs. Its
  world holds the delta buffer of every store and the broadcasts the hub received; a delta
  is a number. The operations named in \<open>bad\<close> fail, each with an error that carries its
  name; the others succeed.
\<close>

record sample_world =
  buffers :: "string \<Rightarrow> nat list"
  published :: "(string \<times> nat list) list"

definition fault :: "string list \<Rightarrow> string \<Rightarrow> error option" where
  "fault bad name = (if name \<in> set bad then Some (Failure name) else None)"

definition appendDeltas :: "string \<Rightarrow> nat list \<Rightarrow> sample_world \<Rightarrow> sample_world" where
  "appendDeltas s ds w = w\<lparr>buffers := (buffers w)(s := buffers w s @ ds)\<rparr>"

definition sampleEnv ::
  "string list \<Rightarrow> (nat, nat list, nat list, nat list, nat, sample_world) env"
where
  "sampleEnv bad = \<lparr>
     NewDBinStore = (\<lambda>url w. (fault bad ''NewDBinStore'', w)),
     NewStore = (\<lambda>url w. (fault bad (''NewStore '' @ url), w)),
     Load = (\<lambda>w. (fault bad ''Load'', w)),
     Init = (\<lambda>s n w. (fault bad (''Init '' @ s), w)),
     RegisterTopic = (\<lambda>s w. (fault bad ''RegisterTopic'', w)),
     Subscribe = (\<lambda>s w. (fault bad ''Subscribe'', w)),
     Run = (\<lambda>n h w. (fault bad ''Run'', w)),
     WriteState = (\<lambda>s b w. (fault bad (''WriteState '' @ s), w)),
     Save = (\<lambda>w. (fault bad ''Save'', w)),
     SetCurrentBlock = (\<lambda>blk w. w),
     PairExtractor_Map = (\<lambda>blk w.
       (case fault bad ''PairExtractor.Map'' of Some e \<Rightarrow> Inl e | None \<Rightarrow> Inr [blk], w)),
     PairsStateBuilder_BuildState = (\<lambda>pairs s w.
       case fault bad ''PairsStateBuilder.BuildState'' of
         Some e \<Rightarrow> (Some e, w) | None \<Rightarrow> (None, appendDeltas s pairs w)),
     Deltas = (\<lambda>s w. buffers w s),
     BroadcastDeltas = (\<lambda>topic ds w.
       case fault bad ''BroadcastDeltas'' of
         Some e \<Rightarrow> (Some e, w)
       | None \<Rightarrow> (None, w\<lparr>published := published w @ [(topic, ds)]\<rparr>)),
     ReservesExtractor_Map = (\<lambda>blk s w.
       (case fault bad ''ReservesExtractor.Map'' of
          Some e \<Rightarrow> Inl e | None \<Rightarrow> Inr (buffers w s), w)),
     PricesStateBuilder_BuildState = (\<lambda>reserveUpdates s1 s2 w.
       case fault bad ''PricesStateBuilder.BuildState'' of
         Some e \<Rightarrow> (Some e, w) | None \<Rightarrow> (None, appendDeltas s2 reserveUpdates w)),
     SwapsExtractor_Map = (\<lambda>blk s1 s2 w.
       (case fault bad ''SwapsExtractor.Map'' of
          Some e \<Rightarrow> Inl e | None \<Rightarrow> Inr [Suc blk], w)),
     TotalPairsStateBuilder_BuildState = (\<lambda>pairs swaps s w.
       case fault bad ''TotalPairsStateBuilder.BuildState'' of
         Some e \<Rightarrow> (Some e, w) | None \<Rightarrow> (None, appendDeltas s [length pairs] w)),
     PCSVolume24hStateBuilder_BuildState = (\<lambda>blk swaps s w.
       case fault bad ''PCSVolume24hStateBuilder.BuildState'' of
         Some e \<Rightarrow> (Some e, w) | None \<Rightarrow> (None, appendDeltas s swaps w)),
     StoreBlock = (\<lambda>s b w. (fault bad (''StoreBlock '' @ s), w)),
     Flush = (\<lambda>s w. w\<lparr>buffers := (buffers w)(s := [])\<rparr>)
   \<rparr>"

text \<open>An empty world, the pipeline \<^verbatim>\<open>runRoot\<close> builds for start block 100, block 105
  of the chain, and a configuration.\<close>

definition sampleWorld :: sample_world where
  "sampleWorld = \<lparr>buffers = (\<lambda>s. []), published = []\<rparr>"

definition samplePipeline :: Pipeline where
  "samplePipeline = \<lparr>startBlockNum = 100, stores = set storeNames\<rparr>"

definition sampleBlock :: "nat block" where
  "sampleBlock = \<lparr>Number = 105, Protocol = Some 5\<rparr>"

definition sampleConfig :: config where
  "sampleConfig = \<lparr>start_block = 100, blocks_store_url = ''./localblocks'',
     irr_indexes_url = ''./localirr'', state_store_url = ''./localdata''\<rparr>"

subsection \<open>A recording environment\<close>

text \<open>
  A second instance of the collaborators. Its world keeps the history of the operations
  performed on it, each with its payload, and the delta buffer of every store. Every
  operation records itself, also when it fails; the operations listed in \<open>bad\<close> fail,
  with the error given there. A state-builder that succeeds appends deltas to the buffer
  of its store, \<^verbatim>\<open>Flush\<close> empties the buffer, and \<^verbatim>\<open>StoreBlock\<close> and \<^verbatim>\<open>Flush\<close>
  record the deltas that the buffer holds when they run.
\<close>

record ledger =
  history :: "(string \<times> nat list) list"
  pending :: "string \<Rightarrow> nat list"

definition logged :: "string \<Rightarrow> nat list \<Rightarrow> ledger \<Rightarrow> ledger" where
  "logged what payload w = w\<lparr>history := history w @ [(what, payload)]\<rparr>"

definition addDeltas :: "string \<Rightarrow> nat list \<Rightarrow> ledger \<Rightarrow> ledger" where
  "addDeltas s ds w = w\<lparr>pending := (pending w)(s := pending w s @ ds)\<rparr>"

definition ledgerEnv ::
  "(string \<times> error) list \<Rightarrow> (nat, nat list, nat list, nat list, nat, ledger) env"
where
  "ledgerEnv bad = \<lparr>
     NewDBinStore = (\<lambda>url w. (map_of bad ''NewDBinStore'', logged (''NewDBinStore '' @ url) [] w)),
     NewStore = (\<lambda>url w. (map_of bad (''NewStore '' @ url), logged (''NewStore '' @ url) [] w)),
     Load = (\<lambda>w. (map_of bad ''Load'', logged ''Load'' [] w)),
     Init = (\<lambda>s n w. (map_of bad (''Init '' @ s), logged (''Init '' @ s) [unat n] w)),
     RegisterTopic = (\<lambda>s w. (map_of bad (''RegisterTopic '' @ s), logged (''RegisterTopic '' @ s) [] w)),
     Subscribe = (\<lambda>s w. (map_of bad (''Subscribe '' @ s), logged (''Subscribe '' @ s) [] w)),
     Run = (\<lambda>n h w. (map_of bad ''Run'', logged ''Run'' [unat n] w)),
     WriteState = (\<lambda>s b w. (map_of bad (''WriteState '' @ s), logged (''WriteState '' @ s) [] w)),
     Save = (\<lambda>w. (map_of bad ''Save'', logged ''Save'' [] w)),
     SetCurrentBlock = (\<lambda>blk w. logged ''SetCurrentBlock'' [blk] w),
     PairExtractor_Map = (\<lambda>blk w.
       (case map_of bad ''PairExtractor.Map'' of Some e \<Rightarrow> Inl e | None \<Rightarrow> Inr [blk],
        logged ''PairExtractor.Map'' [blk] w)),
     PairsStateBuilder_BuildState = (\<lambda>pairs s w.
       (map_of bad ''PairsStateBuilder.BuildState'',
        logged (''PairsStateBuilder.BuildState '' @ s) pairs
          (if map_of bad ''PairsStateBuilder.BuildState'' = None then addDeltas s pairs w else w))),
     Deltas = (\<lambda>s w. pending w s),
     BroadcastDeltas = (\<lambda>topic ds w.
       (map_of bad ''BroadcastDeltas'', logged (''BroadcastDeltas '' @ topic) ds w)),
     ReservesExtractor_Map = (\<lambda>blk s w.
       (case map_of bad ''ReservesExtractor.Map'' of
          Some e \<Rightarrow> Inl e | None \<Rightarrow> Inr (map Suc (pending w s)),
        logged (''ReservesExtractor.Map '' @ s) [blk] w)),
     PricesStateBuilder_BuildState = (\<lambda>reserveUpdates s1 s2 w.
       (map_of bad ''PricesStateBuilder.BuildState'',
        logged (''PricesStateBuilder.BuildState '' @ s1 @ '' '' @ s2) reserveUpdates
          (if map_of bad ''PricesStateBuilder.BuildState'' = None
           then addDeltas s2 reserveUpdates w else w))),
     SwapsExtractor_Map = (\<lambda>blk s1 s2 w.
       (case map_of bad ''SwapsExtractor.Map'' of
          Some e \<Rightarrow> Inl e | None \<Rightarrow> Inr (pending w s1 @ pending w s2),
        logged (''SwapsExtractor.Map '' @ s1 @ '' '' @ s2) [blk] w)),
     TotalPairsStateBuilder_BuildState = (\<lambda>pairs swaps s w.
       (map_of bad ''TotalPairsStateBuilder.BuildState'',
        logged (''TotalPairsStateBuilder.BuildState '' @ s) (pairs @ swaps)
          (if map_of bad ''TotalPairsStateBuilder.BuildState'' = None
           then addDeltas s [length pairs] w else w))),
     PCSVolume24hStateBuilder_BuildState = (\<lambda>blk swaps s w.
       (map_of bad ''PCSVolume24hStateBuilder.BuildState'',
        logged (''PCSVolume24hStateBuilder.BuildState '' @ s) swaps
          (if map_of bad ''PCSVolume24hStateBuilder.BuildState'' = None
           then addDeltas s swaps w else w))),
     StoreBlock = (\<lambda>s b w. (map_of bad (''StoreBlock '' @ s), logged (''StoreBlock '' @ s) (pending w s) w)),
     Flush = (\<lambda>s w. logged (''Flush '' @ s) (pending w s) (w\<lparr>pending := (pending w)(s := [])\<rparr>))
   \<rparr>"

definition emptyLedger :: ledger where
  "emptyLedger = \<lparr>history = [], pending = (\<lambda>s. [])\<rparr>"

section \<open>Properties\<close>

subsection \<open>Traces of the loops\<close>

lemmas sample_defs =
  sampleEnv_def sampleWorld_def samplePipeline_def sampleBlock_def sampleConfig_def
  fault_def appendDeltas_def storeNames_def

lemmas ledger_defs = ledgerEnv_def emptyLedger_def logged_def addDeltas_def
  samplePipeline_def sampleBlock_def sampleConfig_def storeNames_def thread_def

lemma writeStates_calls: "map fst (snd (writeStates E ks b w)) = map Call_WriteState ks"
  by (induction ks arbitrary: w) (simp_all add: case_prod_beta)

lemma flushAll_trace: "snd (flushAll E ks w) = map (\<lambda>s. (Call_Flush s, None)) ks"
  by (induction ks arbitrary: w) (simp_all add: case_prod_beta)

lemma flushAll_eq:
  "flushAll E ks w = (w', tf) \<Longrightarrow> tf = map (\<lambda>s. (Call_Flush s, None)) ks"
  using flushAll_trace [of E ks w] by simp

lemma storeBlocks_ok:
  "storeBlocks E ks b w = (None, w', ts) \<Longrightarrow> ts = map (\<lambda>s. (Call_StoreBlock s, None)) ks"
  by (induction ks arbitrary: w ts) (auto split: prod.splits option.splits)

lemma storeBlocks_err:
  "storeBlocks E ks b w = (Some e, w', ts) \<Longrightarrow>
     \<exists>pre s. ts = map (\<lambda>s. (Call_StoreBlock s, None)) pre @ [(Call_StoreBlock s, Some e)]
        \<and> prefix (pre @ [s]) ks"
proof (induction ks arbitrary: w ts)
  case Nil
  then show ?case by simp
next
  case (Cons k ks)
  show ?case
  proof (cases "StoreBlock E k b w")
    case (Pair r w1)
    show ?thesis
    proof (cases r)
      case None
      with Pair Cons.prems obtain ts' where
        t: "storeBlocks E ks b w1 = (Some e, w', ts')" "ts = (Call_StoreBlock k, None) # ts'"
        by (auto split: prod.splits)
      from Cons.IH [OF t(1)] obtain pre s where
        "ts' = map (\<lambda>s. (Call_StoreBlock s, None)) pre @ [(Call_StoreBlock s, Some e)]"
        "prefix (pre @ [s]) ks"
        by blast
      then have "ts = map (\<lambda>s. (Call_StoreBlock s, None)) (k # pre) @ [(Call_StoreBlock s, Some e)]
          \<and> prefix ((k # pre) @ [s]) (k # ks)"
        using t(2) by simp
      then show ?thesis by blast
    next
      case (Some e')
      with Pair Cons.prems
      have "ts = map (\<lambda>s. (Call_StoreBlock s, None)) [] @ [(Call_StoreBlock k, Some e)]
          \<and> prefix ([] @ [k]) (k # ks)"
        by auto
      then show ?thesis by blast
    qed
  qed
qed

lemma count_list_distinct: "distinct xs \<Longrightarrow> x \<in> set xs \<Longrightarrow> count_list xs x = 1"
  by (induction xs) (auto simp: count_list_0_iff)

subsection \<open>Loops as calls in sequence\<close>

lemma thread_Nil [simp]: "thread f [] w = w"
  by (simp add: thread_def)

lemma thread_Cons [simp]: "thread f (s # ss) w = thread f ss (snd (f s w))"
  by (simp add: thread_def)

lemma thread_append [simp]: "thread f (xs @ ys) w = thread f ys (thread f xs w)"
  by (simp add: thread_def)

lemma succeedAll_append [simp]:
  "succeedAll f (xs @ ys) w = (succeedAll f xs w \<and> succeedAll f ys (thread f xs w))"
  by (induction xs arbitrary: w) auto

lemma writeStates_thread:
  "writeStates E ks b w =
     (thread (\<lambda>s. WriteState E s b) ks w,
      zip (map Call_WriteState ks) (reports (\<lambda>s. WriteState E s b) ks w))"
  by (induction ks arbitrary: w) (simp_all add: case_prod_beta)

lemma flushAll_fold:
  "flushAll E ks w = (fold (Flush E) ks w, map (\<lambda>s. (Call_Flush s, None)) ks)"
  by (induction ks arbitrary: w) (simp_all add: case_prod_beta)

lemma storeBlocks_fail:
  "succeedAll (\<lambda>k. StoreBlock E k b) pre w \<Longrightarrow>
   StoreBlock E s b (thread (\<lambda>k. StoreBlock E k b) pre w) = (Some err, w') \<Longrightarrow>
     storeBlocks E (pre @ s # suf) b w =
       (Some err, w', map (\<lambda>s. (Call_StoreBlock s, None)) pre @ [(Call_StoreBlock s, Some err)])"
  by (induction pre arbitrary: w) (auto split: prod.splits option.splits)

lemma storeBlocks_None_iff:
  "storeBlocks E ks b w = (None, w', ts) \<Longrightarrow>
     succeedAll (\<lambda>k. StoreBlock E k b) ks w \<and> w' = thread (\<lambda>k. StoreBlock E k b) ks w
       \<and> ts = map (\<lambda>s. (Call_StoreBlock s, None)) ks"
  by (induction ks arbitrary: w ts) (auto split: prod.splits option.splits)

subsection \<open>A step of a steady-state block fails\<close>

lemma sample_prices_run:
  "handler (sampleEnv [''PricesStateBuilder.BuildState'']) samplePipeline 1000 storeNames storeNames
      sampleBlock sampleWorld =
   (Returned (Some (Wrapped ''pairs price building: '' (Failure ''PricesStateBuilder.BuildState''))),
    \<lparr>buffers = (\<lambda>s. [])(''pairs'' := [5]), published = [(''pairs'', [5])]\<rparr>,
    [(Call_SetCurrentBlock, None), (Call_PairExtractor_Map, None),
     (Call_Pairs_BuildState ''pairs'', None), (Call_BroadcastDeltas ''pairs'' [5], None),
     (Call_Reserves_Map ''pairs'', None),
     (Call_Prices_BuildState ''pairs'' ''prices'', Some (Failure ''PricesStateBuilder.BuildState''))])"
  by (simp add: handler_def sample_defs Let_def)

text \<open>
  Claim C1, as the spec states it, promises that a failing step leaves the stores, their
  delta buffers and the topics as they were before the block. The handler has no rollback:
  in the sample environment, block 105 fails in the prices builder after the pairs builder
  has appended a delta to the pairs store and after that delta has been broadcast; both
  effects remain when the handler returns its error.
\<close>

theorem partial_block_commit_counterexample:
  "\<not> startBlockNum samplePipeline + 1000 \<le> Number sampleBlock
   \<and> fst (PricesStateBuilder_BuildState (sampleEnv [''PricesStateBuilder.BuildState'']) [5]
            ''pairs'' ''prices'' sampleWorld) = Some (Failure ''PricesStateBuilder.BuildState'')
   \<and> fst (handler (sampleEnv [''PricesStateBuilder.BuildState'']) samplePipeline 1000
            storeNames storeNames sampleBlock sampleWorld)
       = Returned (Some (Wrapped ''pairs price building: ''
                           (Failure ''PricesStateBuilder.BuildState'')))
   \<and> Deltas (sampleEnv [''PricesStateBuilder.BuildState'']) ''pairs'' sampleWorld = []
   \<and> Deltas (sampleEnv [''PricesStateBuilder.BuildState'']) ''pairs''
        (fst (snd (handler (sampleEnv [''PricesStateBuilder.BuildState'']) samplePipeline 1000
                     storeNames storeNames sampleBlock sampleWorld))) = [5]
   \<and> published sampleWorld = []
   \<and> published
        (fst (snd (handler (sampleEnv [''PricesStateBuilder.BuildState'']) samplePipeline 1000
                     storeNames storeNames sampleBlock sampleWorld))) = [(''pairs'', [5])]"
  unfolding sample_prices_run
  by (simp add: sample_defs)

text \<open>
  Claim C1, amended: for every block below the stop threshold whose payload decodes, if
  a step of the block fails (pair extraction, pairs state-building, the broadcast,
  reserves extraction, prices building, swaps extraction, total_pairs building, volume24h
  building, or \<^verbatim>\<open>StoreBlock\<close> on a store) after the steps before it have succeeded,
  each in the world the step before left, then the handler returns a non-nil error, and
  it returns in the world that the failing step left: no later step of the block, no
  further \<^verbatim>\<open>StoreBlock\<close> and no \<^verbatim>\<open>Flush\<close> has run. For the extraction and
  state-building steps the error returned wraps the error of the step behind the context
  of the step; the error of \<^verbatim>\<open>StoreBlock\<close> is returned as it is. Nothing is said about
  undoing the effects of the steps that ran before the failure.
\<close>

theorem failed_step_aborts_block:
  assumes "\<not> startBlockNum p + blockCount \<le> Number block" and "Protocol block = Some blk"
  shows
   "(let H = handler E p blockCount ks1 ks2 block w0 in
     (PairExtractor_Map E blk (SetCurrentBlock E blk w0) = (Inl err, w2) \<longrightarrow>
        fst H = Returned (Some (Wrapped ''extracting pairs: '' err)) \<and> fst (snd H) = w2)
   \<and> (PairExtractor_Map E blk (SetCurrentBlock E blk w0) = (Inr pairs, w2) \<longrightarrow>
     (PairsStateBuilder_BuildState E pairs ''pairs'' w2 = (Some err, w3) \<longrightarrow>
        fst H = Returned (Some (Wrapped ''processing pair cache: '' err)) \<and> fst (snd H) = w3)
   \<and> (PairsStateBuilder_BuildState E pairs ''pairs'' w2 = (None, w3) \<longrightarrow>
     (BroadcastDeltas E ''pairs'' (Deltas E ''pairs'' w3) w3 = (Some err, w4) \<longrightarrow>
        (\<exists>e'. fst H = Returned (Some e')) \<and> fst (snd H) = w4)
   \<and> (BroadcastDeltas E ''pairs'' (Deltas E ''pairs'' w3) w3 = (None, w4) \<longrightarrow>
     (ReservesExtractor_Map E blk ''pairs'' w4 = (Inl err, w5) \<longrightarrow>
        fst H = Returned (Some (Wrapped ''processing reserves extractor: '' err))
        \<and> fst (snd H) = w5)
   \<and> (ReservesExtractor_Map E blk ''pairs'' w4 = (Inr reserveUpdates, w5) \<longrightarrow>
     (PricesStateBuilder_BuildState E reserveUpdates ''pairs'' ''prices'' w5 = (Some err, w6) \<longrightarrow>
        fst H = Returned (Some (Wrapped ''pairs price building: '' err)) \<and> fst (snd H) = w6)
   \<and> (PricesStateBuilder_BuildState E reserveUpdates ''pairs'' ''prices'' w5 = (None, w6) \<longrightarrow>
     (SwapsExtractor_Map E blk ''pairs'' ''prices'' w6 = (Inl err, w7) \<longrightarrow>
        fst H = Returned (Some (Wrapped ''swaps extractor: '' err)) \<and> fst (snd H) = w7)
   \<and> (SwapsExtractor_Map E blk ''pairs'' ''prices'' w6 = (Inr swaps, w7) \<longrightarrow>
     (TotalPairsStateBuilder_BuildState E pairs swaps ''total_pairs'' w7 = (Some err, w8) \<longrightarrow>
        fst H = Returned (Some (Wrapped ''processing total pairs: '' err)) \<and> fst (snd H) = w8)
   \<and> (TotalPairsStateBuilder_BuildState E pairs swaps ''total_pairs'' w7 = (None, w8) \<longrightarrow>
     (PCSVolume24hStateBuilder_BuildState E blk swaps ''volume24h'' w8 = (Some err, w9) \<longrightarrow>
        fst H = Returned (Some (Wrapped ''volume24 builder: '' err)) \<and> fst (snd H) = w9)
   \<and> (PCSVolume24hStateBuilder_BuildState E blk swaps ''volume24h'' w8 = (None, w9) \<longrightarrow>
     (ks1 = pre @ s # suf \<and> succeedAll (\<lambda>k. StoreBlock E k block) pre w9
        \<and> StoreBlock E s block (thread (\<lambda>k. StoreBlock E k block) pre w9) = (Some err, w10) \<longrightarrow>
        fst H = Returned (Some err) \<and> fst (snd H) = w10))))))))))"
  unfolding Let_def using assms
  by (intro conjI impI; (elim conjE)?; simp add: handler_def Let_def storeBlocks_fail)

theorem failed_step_aborts_block_witness:
  "\<not> startBlockNum samplePipeline + 1000 \<le> Number sampleBlock
   \<and> Protocol sampleBlock = Some 5
   \<and> fst (handler (ledgerEnv [(''TotalPairsStateBuilder.BuildState'', Failure ''boom'')])
            samplePipeline 1000 storeNames storeNames sampleBlock emptyLedger)
       = Returned (Some (Wrapped ''processing total pairs: '' (Failure ''boom'')))
   \<and> history (fst (snd (handler (ledgerEnv [(''TotalPairsStateBuilder.BuildState'', Failure ''boom'')])
            samplePipeline 1000 storeNames storeNames sampleBlock emptyLedger)))
       = [(''SetCurrentBlock'', [5]), (''PairExtractor.Map'', [5]),
          (''PairsStateBuilder.BuildState pairs'', [5]), (''BroadcastDeltas pairs'', [5]),
          (''ReservesExtractor.Map pairs'', [5]),
          (''PricesStateBuilder.BuildState pairs prices'', [6]),
          (''SwapsExtractor.Map pairs prices'', [5]),
          (''TotalPairsStateBuilder.BuildState total_pairs'', [5, 5, 6])]"
proof -
  let ?E = "ledgerEnv [(''TotalPairsStateBuilder.BuildState'', Failure ''boom'')]"
  let ?v1 = "SetCurrentBlock ?E 5 emptyLedger"
  let ?v2 = "snd (PairExtractor_Map ?E 5 ?v1)"
  let ?v3 = "snd (PairsStateBuilder_BuildState ?E [5] ''pairs'' ?v2)"
  let ?v4 = "snd (BroadcastDeltas ?E ''pairs'' (Deltas ?E ''pairs'' ?v3) ?v3)"
  let ?v5 = "snd (ReservesExtractor_Map ?E 5 ''pairs'' ?v4)"
  let ?v6 = "snd (PricesStateBuilder_BuildState ?E [6] ''pairs'' ''prices'' ?v5)"
  let ?v7 = "snd (SwapsExtractor_Map ?E 5 ''pairs'' ''prices'' ?v6)"
  let ?v8 = "snd (TotalPairsStateBuilder_BuildState ?E [5] [5, 6] ''total_pairs'' ?v7)"
  have a1: "\<not> startBlockNum samplePipeline + 1000 \<le> Number sampleBlock"
    by (simp add: ledger_defs)
  have a2: "Protocol sampleBlock = Some 5"
    by (simp add: ledger_defs)
  have h1: "PairExtractor_Map ?E 5 ?v1 = (Inr [5], ?v2)"
    by (simp add: ledger_defs)
  have h2: "PairsStateBuilder_BuildState ?E [5] ''pairs'' ?v2 = (None, ?v3)"
    by (simp add: ledger_defs)
  have h3: "BroadcastDeltas ?E ''pairs'' (Deltas ?E ''pairs'' ?v3) ?v3 = (None, ?v4)"
    by (simp add: ledger_defs)
  have h4: "ReservesExtractor_Map ?E 5 ''pairs'' ?v4 = (Inr [6], ?v5)"
    by (simp add: ledger_defs)
  have h5: "PricesStateBuilder_BuildState ?E [6] ''pairs'' ''prices'' ?v5 = (None, ?v6)"
    by (simp add: ledger_defs)
  have h6: "SwapsExtractor_Map ?E 5 ''pairs'' ''prices'' ?v6 = (Inr [5, 6], ?v7)"
    by (simp add: ledger_defs)
  have h7: "TotalPairsStateBuilder_BuildState ?E [5] [5, 6] ''total_pairs'' ?v7
              = (Some (Failure ''boom''), ?v8)"
    by (simp add: ledger_defs)
  note t = failed_step_aborts_block [OF a1 a2, unfolded Let_def, where E = ?E
      and ?ks1.0 = storeNames and ?ks2.0 = storeNames and ?w0.0 = emptyLedger]
  note t7 = t [THEN conjunct2, THEN mp, OF h1, THEN conjunct2, THEN mp, OF h2,
      THEN conjunct2, THEN mp, OF h3, THEN conjunct2, THEN mp, OF h4,
      THEN conjunct2, THEN mp, OF h5, THEN conjunct2, THEN mp, OF h6,
      THEN conjunct1, THEN mp, OF h7]
  have hist: "history ?v8
       = [(''SetCurrentBlock'', [5]), (''PairExtractor.Map'', [5]),
          (''PairsStateBuilder.BuildState pairs'', [5]), (''BroadcastDeltas pairs'', [5]),
          (''ReservesExtractor.Map pairs'', [5]),
          (''PricesStateBuilder.BuildState pairs prices'', [6]),
          (''SwapsExtractor.Map pairs prices'', [5]),
          (''TotalPairsStateBuilder.BuildState total_pairs'', [5, 5, 6])]"
    by (simp add: ledger_defs)
  from t7 hist a1 a2 show ?thesis by simp
qed

subsection \<open>The stop transition\<close>

lemma handler_stop:
  assumes "startBlockNum p + blockCount \<le> Number block"
  shows "handler E p blockCount ks1 ks2 block w0 =
          (Returned (Some EOF), snd (Save E (fst (writeStates E ks1 block w0))),
           snd (writeStates E ks1 block w0)
             @ [(Call_Save, fst (Save E (fst (writeStates E ks1 block w0))))])"
  using assms by (simp add: handler_def case_prod_beta)

text \<open>When the mathematical sum of start block and block count is at most the height of
  the block, the 64-bit sum did not wrap, and the comparison of the handler holds.\<close>

lemma threshold_no_wrap:
  fixes a b n :: uint64
  assumes "unat a + unat b \<le> unat n"
  shows "a + b \<le> n"
proof -
  have "unat n < 2 ^ 64" using unsigned_less [of n] by simp
  with assms have "unat a + unat b < 2 ^ 64" by simp
  then have "unat (a + b) = unat a + unat b"
    by (simp add: unat_word_ariths)
  with assms show ?thesis by (simp add: word_le_nat_alt)
qed

lemma sample_stop_run:
  "handler (sampleEnv []) samplePipeline 5 storeNames storeNames sampleBlock sampleWorld =
    (Returned (Some EOF), sampleWorld,
     [(Call_WriteState ''pairs'', None), (Call_WriteState ''total_pairs'', None),
      (Call_WriteState ''prices'', None), (Call_WriteState ''volume24h'', None),
      (Call_Save, None)])"
  by (simp add: handler_def sample_defs Let_def)

text \<open>
  Claim C2, as the spec states it, has the handler return a sentinel that is distinguished
  from a failure. The handler returns \<^verbatim>\<open>io.EOF\<close>, an ordinary error value, and it
  returns an error of \<^verbatim>\<open>StoreBlock\<close> as it is: in the recording environment, block 105
  is below the threshold 1100, its \<^verbatim>\<open>StoreBlock\<close> on the pairs store fails with
  \<^verbatim>\<open>io.EOF\<close>, and the handler returns the very value that it returns for a block at
  the threshold.
\<close>

theorem sentinel_is_an_ordinary_error_counterexample:
  "\<not> startBlockNum samplePipeline + 1000 \<le> Number sampleBlock
   \<and> fst (StoreBlock (ledgerEnv [(''StoreBlock pairs'', EOF)]) ''pairs'' sampleBlock emptyLedger)
       = Some EOF
   \<and> fst (handler (ledgerEnv [(''StoreBlock pairs'', EOF)]) samplePipeline 1000 storeNames
            storeNames sampleBlock emptyLedger) = Returned (Some EOF)
   \<and> startBlockNum samplePipeline + 5 \<le> Number sampleBlock
   \<and> fst (handler (ledgerEnv []) samplePipeline 5 storeNames storeNames sampleBlock emptyLedger)
       = Returned (Some EOF)"
  by (simp add: handler_def ledger_defs Let_def)

text \<open>
  Claim C2, amended: for every block whose height is at least
  \<^verbatim>\<open>startBlockNum + blockCount\<close> (the comparison of the handler, on the 64-bit sum; by
  \<open>threshold_no_wrap\<close> it holds whenever the height is at least the unbounded sum), the
  handler does not decode the block and runs no extractor and no state-builder: it
  calls \<^verbatim>\<open>WriteState\<close> on every store of the pipeline, once each, each in the world the
  call before left, then \<^verbatim>\<open>Save\<close> on the call cache, and returns in the world that
  \<^verbatim>\<open>Save\<close> left. Whatever these calls report, it returns \<^verbatim>\<open>io.EOF\<close>, the error
  value that the driver uses as its end-of-stream sentinel.
\<close>

theorem stop_transition:
  assumes "startBlockNum p + blockCount \<le> Number block"
  shows "handler E p blockCount ks1 ks2 block w0 =
           (Returned (Some EOF),
            snd (Save E (thread (\<lambda>k. WriteState E k block) ks1 w0)),
            zip (map Call_WriteState ks1) (reports (\<lambda>k. WriteState E k block) ks1 w0)
              @ [(Call_Save, fst (Save E (thread (\<lambda>k. WriteState E k block) ks1 w0)))])
       \<and> (iteration (stores p) ks1 \<longrightarrow>
            set ks1 = stores p \<and> (\<forall>s \<in> stores p. count_list ks1 s = 1))"
proof (intro conjI impI ballI)
  show "handler E p blockCount ks1 ks2 block w0 =
           (Returned (Some EOF),
            snd (Save E (thread (\<lambda>k. WriteState E k block) ks1 w0)),
            zip (map Call_WriteState ks1) (reports (\<lambda>k. WriteState E k block) ks1 w0)
              @ [(Call_Save, fst (Save E (thread (\<lambda>k. WriteState E k block) ks1 w0)))])"
    using assms by (simp add: handler_def writeStates_thread case_prod_beta)
next
  assume "iteration (stores p) ks1"
  then show "set ks1 = stores p" by (simp add: iteration_def)
next
  fix s
  assume "iteration (stores p) ks1" and "s \<in> stores p"
  then have "distinct ks1" "s \<in> set ks1" by (simp_all add: iteration_def)
  then show "count_list ks1 s = 1" by (rule count_list_distinct)
qed

theorem stop_transition_witness:
  "startBlockNum samplePipeline + 5 \<le> Number sampleBlock
   \<and> iteration (stores samplePipeline) storeNames
   \<and> fst (handler (ledgerEnv [(''WriteState pairs'', Failure ''disk full''),
                                (''Save'', Failure ''disk full'')])
            samplePipeline 5 storeNames storeNames sampleBlock emptyLedger)
       = Returned (Some EOF)
   \<and> history (fst (snd (handler (ledgerEnv [(''WriteState pairs'', Failure ''disk full''),
                                             (''Save'', Failure ''disk full'')])
            samplePipeline 5 storeNames storeNames sampleBlock emptyLedger)))
       = [(''WriteState pairs'', []), (''WriteState total_pairs'', []),
          (''WriteState prices'', []), (''WriteState volume24h'', []), (''Save'', [])]
   \<and> snd (snd (handler (ledgerEnv [(''WriteState pairs'', Failure ''disk full''),
                                    (''Save'', Failure ''disk full'')])
            samplePipeline 5 storeNames storeNames sampleBlock emptyLedger))
       = [(Call_WriteState ''pairs'', Some (Failure ''disk full'')),
          (Call_WriteState ''total_pairs'', None), (Call_WriteState ''prices'', None),
          (Call_WriteState ''volume24h'', None), (Call_Save, Some (Failure ''disk full''))]"
proof -
  let ?E = "ledgerEnv [(''WriteState pairs'', Failure ''disk full''),
                       (''Save'', Failure ''disk full'')]"
  have h1: "startBlockNum samplePipeline + 5 \<le> Number sampleBlock"
    by (simp add: ledger_defs)
  have h2: "iteration (stores samplePipeline) storeNames"
    by (simp add: iteration_def ledger_defs)
  note t = stop_transition [OF h1, where E = ?E and ?ks1.0 = storeNames
      and ?ks2.0 = storeNames and ?w0.0 = emptyLedger, THEN conjunct1]
  have w: "history (snd (Save ?E (thread (\<lambda>k. WriteState ?E k sampleBlock) storeNames emptyLedger)))
       = [(''WriteState pairs'', []), (''WriteState total_pairs'', []),
          (''WriteState prices'', []), (''WriteState volume24h'', []), (''Save'', [])]"
    by (simp add: ledger_defs)
  have r: "zip (map Call_WriteState storeNames)
             (reports (\<lambda>k. WriteState ?E k sampleBlock) storeNames emptyLedger)
           @ [(Call_Save, fst (Save ?E (thread (\<lambda>k. WriteState ?E k sampleBlock) storeNames
                                          emptyLedger)))]
       = [(Call_WriteState ''pairs'', Some (Failure ''disk full'')),
          (Call_WriteState ''total_pairs'', None), (Call_WriteState ''prices'', None),
          (Call_WriteState ''volume24h'', None), (Call_Save, Some (Failure ''disk full''))]"
    by (simp add: ledger_defs)
  from h1 h2 w r show ?thesis
    unfolding t by simp
qed

subsection \<open>Successful blocks: order of the calls\<close>

lemma writeStates_eq:
  "writeStates E ks b w = (w1, t1) \<Longrightarrow> map fst t1 = map Call_WriteState ks"
  using writeStates_calls [of E ks b w] by simp

lemma no_build_in_loops [simp]:
  "filter isBuild (map Call_WriteState ks) = []"
  "filter isBuild (map Call_StoreBlock ks) = []"
  "filter isBuild (map Call_Flush ks) = []"
  by (induction ks) simp_all

lemma builders_order:
  assumes run: "handler E p blockCount ks1 ks2 block w0 = (out, w', tr)"
  shows "prefix (filter isBuild (map fst tr)) buildOrder
       \<and> (out = Returned None \<longrightarrow> filter isBuild (map fst tr) = buildOrder)"
  using run
  apply (simp add: handler_def Let_def split: prod.splits sum.splits option.splits if_splits)
   apply (auto dest!: storeBlocks_ok storeBlocks_err flushAll_eq writeStates_eq simp: buildOrder_def comp_def)
  done


lemma broadcastTopics_append:
  "broadcastTopics (xs @ ys) = broadcastTopics xs @ broadcastTopics ys"
  by (induction xs rule: broadcastTopics.induct) simp_all

lemma no_broadcast_in_loops [simp]:
  "broadcastTopics (map Call_WriteState ks) = []"
  "broadcastTopics (map Call_StoreBlock ks) = []"
  "broadcastTopics (map Call_Flush ks) = []"
  by (induction ks) simp_all

lemma flushAll_frame:
  "Flush_spec E \<Longrightarrow> s \<notin> set ks \<Longrightarrow> Deltas E s (fst (flushAll E ks w)) = Deltas E s w"
  by (induction ks arbitrary: w) (auto simp: case_prod_beta Flush_spec_def)

lemma flushAll_clears:
  "Flush_spec E \<Longrightarrow> s \<in> set ks \<Longrightarrow> Deltas E s (fst (flushAll E ks w)) = []"
proof (induction ks arbitrary: w)
  case Nil
  then show ?case by simp
next
  case (Cons k ks)
  show ?case
  proof (cases "s \<in> set ks")
    case True
    with Cons show ?thesis by (simp add: case_prod_beta)
  next
    case False
    with Cons.prems have "s = k" by simp
    with False Cons.prems(1) show ?thesis
      by (simp add: case_prod_beta flushAll_frame) (simp add: Flush_spec_def)
  qed
qed

lemma fold_Flush_clears:
  "Flush_spec E \<Longrightarrow> s \<in> set ks \<Longrightarrow> Deltas E s (fold (Flush E) ks w) = []"
  using flushAll_clears [of E s ks w] by (simp add: flushAll_fold)


lemma steady_returns:
  assumes "\<not> startBlockNum p + blockCount \<le> Number block" and "Protocol block = Some blk"
  shows "\<exists>r. fst (handler E p blockCount ks1 ks2 block w0) = Returned r"
  using assms
  by (simp add: handler_def Let_def case_prod_beta
      split: prod.splits sum.splits option.splits)

lemma steady_chain:
  assumes run: "handler E p blockCount ks1 ks2 block w0 = (Returned None, w', tr)"
  shows "\<exists>blk pairs w2 w3 w4 reserveUpdates w5 w6 swaps w7 w8 w9.
           Protocol block = Some blk
         \<and> PairExtractor_Map E blk (SetCurrentBlock E blk w0) = (Inr pairs, w2)
         \<and> PairsStateBuilder_BuildState E pairs ''pairs'' w2 = (None, w3)
         \<and> BroadcastDeltas E ''pairs'' (Deltas E ''pairs'' w3) w3 = (None, w4)
         \<and> ReservesExtractor_Map E blk ''pairs'' w4 = (Inr reserveUpdates, w5)
         \<and> PricesStateBuilder_BuildState E reserveUpdates ''pairs'' ''prices'' w5 = (None, w6)
         \<and> SwapsExtractor_Map E blk ''pairs'' ''prices'' w6 = (Inr swaps, w7)
         \<and> TotalPairsStateBuilder_BuildState E pairs swaps ''total_pairs'' w7 = (None, w8)
         \<and> PCSVolume24hStateBuilder_BuildState E blk swaps ''volume24h'' w8 = (None, w9)
         \<and> succeedAll (\<lambda>k. StoreBlock E k block) ks1 w9
         \<and> w' = fold (Flush E) ks2 (thread (\<lambda>k. StoreBlock E k block) ks1 w9)
         \<and> tr = map (\<lambda>c. (c, None))
             ([Call_SetCurrentBlock, Call_PairExtractor_Map, Call_Pairs_BuildState ''pairs'',
               Call_BroadcastDeltas ''pairs'' (Deltas E ''pairs'' w3), Call_Reserves_Map ''pairs'',
               Call_Prices_BuildState ''pairs'' ''prices'', Call_Swaps_Map ''pairs'' ''prices'',
               Call_TotalPairs_BuildState ''total_pairs'', Call_Volume24h_BuildState ''volume24h'']
              @ map Call_StoreBlock ks1 @ map Call_Flush ks2)"
  using run
  apply (simp add: handler_def Let_def flushAll_fold
      split: prod.splits sum.splits option.splits if_splits)
  apply (elim conjE exE)
  apply (drule storeBlocks_None_iff)
  apply (elim conjE)
  apply (intro exI conjI)
             apply assumption+
   apply simp
  apply (simp add: comp_def)
  done

lemma ledger_ok_outcome:
  "fst (handler (ledgerEnv []) samplePipeline 1000 storeNames (rev storeNames) sampleBlock
          emptyLedger) = Returned None"
  by (simp add: handler_def ledger_defs Let_def)

lemma ledger_ok_history:
  "history (fst (snd (handler (ledgerEnv []) samplePipeline 1000 storeNames (rev storeNames)
          sampleBlock emptyLedger)))
     = [(''SetCurrentBlock'', [5]), (''PairExtractor.Map'', [5]),
        (''PairsStateBuilder.BuildState pairs'', [5]), (''BroadcastDeltas pairs'', [5]),
        (''ReservesExtractor.Map pairs'', [5]),
        (''PricesStateBuilder.BuildState pairs prices'', [6]),
        (''SwapsExtractor.Map pairs prices'', [5]),
        (''TotalPairsStateBuilder.BuildState total_pairs'', [5, 5, 6]),
        (''PCSVolume24hStateBuilder.BuildState volume24h'', [5, 6]),
        (''StoreBlock pairs'', [5]), (''StoreBlock total_pairs'', [1]),
        (''StoreBlock prices'', [6]), (''StoreBlock volume24h'', [5, 6]),
        (''Flush volume24h'', [5, 6]), (''Flush prices'', [6]),
        (''Flush total_pairs'', [1]), (''Flush pairs'', [5])]"
  by (simp add: handler_def ledger_defs Let_def)

lemma ledger_ok_run:
  "handler (ledgerEnv []) samplePipeline 1000 storeNames (rev storeNames) sampleBlock emptyLedger
     = (Returned None,
        fst (snd (handler (ledgerEnv []) samplePipeline 1000 storeNames (rev storeNames)
                    sampleBlock emptyLedger)),
        snd (snd (handler (ledgerEnv []) samplePipeline 1000 storeNames (rev storeNames)
                    sampleBlock emptyLedger)))"
  using ledger_ok_outcome by (metis prod.collapse)

lemma ledger_Flush_spec: "Flush_spec (ledgerEnv bad)"
  by (simp add: Flush_spec_def ledgerEnv_def logged_def)

text \<open>
  Claim C3: in every run of the handler the state-building calls that were made are an
  initial part of the list pairs, prices (on the stores pairs and prices), total_pairs,
  volume24h. A block that is processed to the end (the handler returns \<^verbatim>\<open>nil\<close>) has
  run the four builders in that order, each in the world that the steps before it left:
  the prices builder runs on the world of the pairs builder of the same block, passed
  through the broadcast and the reserves extractor only, then the total_pairs builder,
  then the volume24h builder; the world the handler leaves is the world of the last
  builder passed through \<^verbatim>\<open>StoreBlock\<close> and \<^verbatim>\<open>Flush\<close>. When the pairs builder fails,
  the handler returns in the world that builder left, so no later builder has run; the
  same holds when the prices builder or the total_pairs builder fails.
\<close>

theorem builders_in_dependency_order:
  assumes run: "handler E p blockCount ks1 ks2 block w0 = (out, w', tr)"
  shows "prefix (filter isBuild (map fst tr)) buildOrder
   \<and> (out = Returned None \<longrightarrow>
        filter isBuild (map fst tr) = buildOrder
      \<and> (\<exists>blk pairs w2 w3 w4 reserveUpdates w5 w6 swaps w7 w8 w9.
           Protocol block = Some blk
         \<and> PairExtractor_Map E blk (SetCurrentBlock E blk w0) = (Inr pairs, w2)
         \<and> PairsStateBuilder_BuildState E pairs ''pairs'' w2 = (None, w3)
         \<and> BroadcastDeltas E ''pairs'' (Deltas E ''pairs'' w3) w3 = (None, w4)
         \<and> ReservesExtractor_Map E blk ''pairs'' w4 = (Inr reserveUpdates, w5)
         \<and> PricesStateBuilder_BuildState E reserveUpdates ''pairs'' ''prices'' w5 = (None, w6)
         \<and> SwapsExtractor_Map E blk ''pairs'' ''prices'' w6 = (Inr swaps, w7)
         \<and> TotalPairsStateBuilder_BuildState E pairs swaps ''total_pairs'' w7 = (None, w8)
         \<and> PCSVolume24hStateBuilder_BuildState E blk swaps ''volume24h'' w8 = (None, w9)
         \<and> succeedAll (\<lambda>k. StoreBlock E k block) ks1 w9
         \<and> w' = fold (Flush E) ks2 (thread (\<lambda>k. StoreBlock E k block) ks1 w9)))
   \<and> (\<not> startBlockNum p + blockCount \<le> Number block \<and> Protocol block = Some blk
        \<and> PairExtractor_Map E blk (SetCurrentBlock E blk w0) = (Inr pairs, v2) \<longrightarrow>
        (PairsStateBuilder_BuildState E pairs ''pairs'' v2 = (Some err, v3) \<longrightarrow>
           out = Returned (Some (Wrapped ''processing pair cache: '' err)) \<and> w' = v3)
      \<and> (PairsStateBuilder_BuildState E pairs ''pairs'' v2 = (None, v3)
          \<and> BroadcastDeltas E ''pairs'' (Deltas E ''pairs'' v3) v3 = (None, v4)
          \<and> ReservesExtractor_Map E blk ''pairs'' v4 = (Inr reserveUpdates, v5) \<longrightarrow>
          (PricesStateBuilder_BuildState E reserveUpdates ''pairs'' ''prices'' v5 = (Some err, v6) \<longrightarrow>
             out = Returned (Some (Wrapped ''pairs price building: '' err)) \<and> w' = v6)
        \<and> (PricesStateBuilder_BuildState E reserveUpdates ''pairs'' ''prices'' v5 = (None, v6)
            \<and> SwapsExtractor_Map E blk ''pairs'' ''prices'' v6 = (Inr swaps, v7) \<longrightarrow>
            (TotalPairsStateBuilder_BuildState E pairs swaps ''total_pairs'' v7 = (Some err, v8) \<longrightarrow>
               out = Returned (Some (Wrapped ''processing total pairs: '' err)) \<and> w' = v8))))"
proof (intro conjI)
  show "prefix (filter isBuild (map fst tr)) buildOrder"
    using builders_order [OF run] by simp
next
  show "out = Returned None \<longrightarrow>
        filter isBuild (map fst tr) = buildOrder
      \<and> (\<exists>blk pairs w2 w3 w4 reserveUpdates w5 w6 swaps w7 w8 w9.
           Protocol block = Some blk
         \<and> PairExtractor_Map E blk (SetCurrentBlock E blk w0) = (Inr pairs, w2)
         \<and> PairsStateBuilder_BuildState E pairs ''pairs'' w2 = (None, w3)
         \<and> BroadcastDeltas E ''pairs'' (Deltas E ''pairs'' w3) w3 = (None, w4)
         \<and> ReservesExtractor_Map E blk ''pairs'' w4 = (Inr reserveUpdates, w5)
         \<and> PricesStateBuilder_BuildState E reserveUpdates ''pairs'' ''prices'' w5 = (None, w6)
         \<and> SwapsExtractor_Map E blk ''pairs'' ''prices'' w6 = (Inr swaps, w7)
         \<and> TotalPairsStateBuilder_BuildState E pairs swaps ''total_pairs'' w7 = (None, w8)
         \<and> PCSVolume24hStateBuilder_BuildState E blk swaps ''volume24h'' w8 = (None, w9)
         \<and> succeedAll (\<lambda>k. StoreBlock E k block) ks1 w9
         \<and> w' = fold (Flush E) ks2 (thread (\<lambda>k. StoreBlock E k block) ks1 w9))"
  proof
    assume "out = Returned None"
    with run have "handler E p blockCount ks1 ks2 block w0 = (Returned None, w', tr)" by simp
    moreover from builders_order [OF run] \<open>out = Returned None\<close>
    have "filter isBuild (map fst tr) = buildOrder" by simp
    ultimately show "filter isBuild (map fst tr) = buildOrder
      \<and> (\<exists>blk pairs w2 w3 w4 reserveUpdates w5 w6 swaps w7 w8 w9.
           Protocol block = Some blk
         \<and> PairExtractor_Map E blk (SetCurrentBlock E blk w0) = (Inr pairs, w2)
         \<and> PairsStateBuilder_BuildState E pairs ''pairs'' w2 = (None, w3)
         \<and> BroadcastDeltas E ''pairs'' (Deltas E ''pairs'' w3) w3 = (None, w4)
         \<and> ReservesExtractor_Map E blk ''pairs'' w4 = (Inr reserveUpdates, w5)
         \<and> PricesStateBuilder_BuildState E reserveUpdates ''pairs'' ''prices'' w5 = (None, w6)
         \<and> SwapsExtractor_Map E blk ''pairs'' ''prices'' w6 = (Inr swaps, w7)
         \<and> TotalPairsStateBuilder_BuildState E pairs swaps ''total_pairs'' w7 = (None, w8)
         \<and> PCSVolume24hStateBuilder_BuildState E blk swaps ''volume24h'' w8 = (None, w9)
         \<and> succeedAll (\<lambda>k. StoreBlock E k block) ks1 w9
         \<and> w' = fold (Flush E) ks2 (thread (\<lambda>k. StoreBlock E k block) ks1 w9))"
      using steady_chain [of E p blockCount ks1 ks2 block w0 w' tr] by blast
  qed
next
  show "\<not> startBlockNum p + blockCount \<le> Number block \<and> Protocol block = Some blk
        \<and> PairExtractor_Map E blk (SetCurrentBlock E blk w0) = (Inr pairs, v2) \<longrightarrow>
        (PairsStateBuilder_BuildState E pairs ''pairs'' v2 = (Some err, v3) \<longrightarrow>
           out = Returned (Some (Wrapped ''processing pair cache: '' err)) \<and> w' = v3)
      \<and> (PairsStateBuilder_BuildState E pairs ''pairs'' v2 = (None, v3)
          \<and> BroadcastDeltas E ''pairs'' (Deltas E ''pairs'' v3) v3 = (None, v4)
          \<and> ReservesExtractor_Map E blk ''pairs'' v4 = (Inr reserveUpdates, v5) \<longrightarrow>
          (PricesStateBuilder_BuildState E reserveUpdates ''pairs'' ''prices'' v5 = (Some err, v6) \<longrightarrow>
             out = Returned (Some (Wrapped ''pairs price building: '' err)) \<and> w' = v6)
        \<and> (PricesStateBuilder_BuildState E reserveUpdates ''pairs'' ''prices'' v5 = (None, v6)
            \<and> SwapsExtractor_Map E blk ''pairs'' ''prices'' v6 = (Inr swaps, v7) \<longrightarrow>
            (TotalPairsStateBuilder_BuildState E pairs swaps ''total_pairs'' v7 = (Some err, v8) \<longrightarrow>
               out = Returned (Some (Wrapped ''processing total pairs: '' err)) \<and> w' = v8)))"
    using run
    by (intro conjI impI; (elim conjE)?; simp add: handler_def Let_def)
qed

theorem builders_in_dependency_order_witness:
  "fst (handler (ledgerEnv []) samplePipeline 1000 storeNames (rev storeNames) sampleBlock
          emptyLedger) = Returned None
   \<and> filter isBuild (map fst (snd (snd (handler (ledgerEnv []) samplePipeline 1000 storeNames
        (rev storeNames) sampleBlock emptyLedger))))
      = [Call_Pairs_BuildState ''pairs'', Call_Prices_BuildState ''pairs'' ''prices'',
         Call_TotalPairs_BuildState ''total_pairs'', Call_Volume24h_BuildState ''volume24h'']
   \<and> history (fst (snd (handler (ledgerEnv []) samplePipeline 1000 storeNames (rev storeNames)
          sampleBlock emptyLedger)))
     = [(''SetCurrentBlock'', [5]), (''PairExtractor.Map'', [5]),
        (''PairsStateBuilder.BuildState pairs'', [5]), (''BroadcastDeltas pairs'', [5]),
        (''ReservesExtractor.Map pairs'', [5]),
        (''PricesStateBuilder.BuildState pairs prices'', [6]),
        (''SwapsExtractor.Map pairs prices'', [5]),
        (''TotalPairsStateBuilder.BuildState total_pairs'', [5, 5, 6]),
        (''PCSVolume24hStateBuilder.BuildState volume24h'', [5, 6]),
        (''StoreBlock pairs'', [5]), (''StoreBlock total_pairs'', [1]),
        (''StoreBlock prices'', [6]), (''StoreBlock volume24h'', [5, 6]),
        (''Flush volume24h'', [5, 6]), (''Flush prices'', [6]),
        (''Flush total_pairs'', [1]), (''Flush pairs'', [5])]
   \<and> \<not> startBlockNum samplePipeline + 1000 \<le> Number sampleBlock
   \<and> Protocol sampleBlock = Some 5
   \<and> fst (PricesStateBuilder_BuildState
            (ledgerEnv [(''PricesStateBuilder.BuildState'', Failure ''boom'')])
            [6] ''pairs'' ''prices'' emptyLedger) = Some (Failure ''boom'')
   \<and> fst (handler (ledgerEnv [(''PricesStateBuilder.BuildState'', Failure ''boom'')])
            samplePipeline 1000 storeNames storeNames sampleBlock emptyLedger)
       = Returned (Some (Wrapped ''pairs price building: '' (Failure ''boom'')))
   \<and> history (fst (snd (handler (ledgerEnv [(''PricesStateBuilder.BuildState'', Failure ''boom'')])
            samplePipeline 1000 storeNames storeNames sampleBlock emptyLedger)))
       = [(''SetCurrentBlock'', [5]), (''PairExtractor.Map'', [5]),
          (''PairsStateBuilder.BuildState pairs'', [5]), (''BroadcastDeltas pairs'', [5]),
          (''ReservesExtractor.Map pairs'', [5]),
          (''PricesStateBuilder.BuildState pairs prices'', [6])]"
proof -
  let ?E = "ledgerEnv [(''PricesStateBuilder.BuildState'', Failure ''boom'')]"
  let ?H = "handler ?E samplePipeline 1000 storeNames storeNames sampleBlock emptyLedger"
  let ?v1 = "SetCurrentBlock ?E 5 emptyLedger"
  let ?v2 = "snd (PairExtractor_Map ?E 5 ?v1)"
  let ?v3 = "snd (PairsStateBuilder_BuildState ?E [5] ''pairs'' ?v2)"
  let ?v4 = "snd (BroadcastDeltas ?E ''pairs'' (Deltas ?E ''pairs'' ?v3) ?v3)"
  let ?v5 = "snd (ReservesExtractor_Map ?E 5 ''pairs'' ?v4)"
  let ?v6 = "snd (PricesStateBuilder_BuildState ?E [6] ''pairs'' ''prices'' ?v5)"
  from builders_in_dependency_order [OF ledger_ok_run, THEN conjunct2, THEN conjunct1]
  have ok: "filter isBuild (map fst (snd (snd (handler (ledgerEnv []) samplePipeline 1000 storeNames
        (rev storeNames) sampleBlock emptyLedger)))) = buildOrder"
    by simp
  have run: "?H = (fst ?H, fst (snd ?H), snd (snd ?H))" by simp
  have a1: "\<not> startBlockNum samplePipeline + 1000 \<le> Number sampleBlock"
    by (simp add: ledger_defs)
  have a2: "Protocol sampleBlock = Some 5"
    by (simp add: ledger_defs)
  have h1: "PairExtractor_Map ?E 5 ?v1 = (Inr [5], ?v2)"
    by (simp add: ledger_defs)
  have h2: "PairsStateBuilder_BuildState ?E [5] ''pairs'' ?v2 = (None, ?v3)"
    by (simp add: ledger_defs)
  have h3: "BroadcastDeltas ?E ''pairs'' (Deltas ?E ''pairs'' ?v3) ?v3 = (None, ?v4)"
    by (simp add: ledger_defs)
  have h4: "ReservesExtractor_Map ?E 5 ''pairs'' ?v4 = (Inr [6], ?v5)"
    by (simp add: ledger_defs)
  have h5: "PricesStateBuilder_BuildState ?E [6] ''pairs'' ''prices'' ?v5
              = (Some (Failure ''boom''), ?v6)"
    by (simp add: ledger_defs)
  have i: "fst (PricesStateBuilder_BuildState ?E [6] ''pairs'' ''prices'' emptyLedger)
             = Some (Failure ''boom'')"
    by (simp add: ledger_defs)
  note t = builders_in_dependency_order [OF run, THEN conjunct2, THEN conjunct2, THEN mp,
      OF conjI [OF a1 conjI [OF a2 h1]], THEN conjunct2, THEN mp,
      OF conjI [OF h2 conjI [OF h3 h4]], THEN conjunct1, THEN mp, OF h5]
  have hist: "history ?v6
       = [(''SetCurrentBlock'', [5]), (''PairExtractor.Map'', [5]),
          (''PairsStateBuilder.BuildState pairs'', [5]), (''BroadcastDeltas pairs'', [5]),
          (''ReservesExtractor.Map pairs'', [5]),
          (''PricesStateBuilder.BuildState pairs prices'', [6])]"
    by (simp add: ledger_defs)
  from ok ledger_ok_outcome ledger_ok_history a1 a2 i t hist show ?thesis
    by (simp add: buildOrder_def)
qed




text \<open>
  Claim C6, as the spec states it, has every \<^verbatim>\<open>Flush\<close> come only after the deltas of
  the block have been broadcast. Only the deltas of the pairs store are ever broadcast:
  in the recording environment block 105 is processed to the end; the deltas \<open>[6]\<close> of
  prices, \<open>[1]\<close> of total_pairs and \<open>[5, 6]\<close> of volume24h are stored and then
  flushed, and the only broadcast of the block is that of the deltas \<open>[5]\<close> of pairs.
\<close>

theorem flush_without_broadcast_counterexample:
  "fst (handler (ledgerEnv []) samplePipeline 1000 storeNames (rev storeNames) sampleBlock
          emptyLedger) = Returned None
   \<and> history (fst (snd (handler (ledgerEnv []) samplePipeline 1000 storeNames (rev storeNames)
          sampleBlock emptyLedger)))
     = [(''SetCurrentBlock'', [5]), (''PairExtractor.Map'', [5]),
        (''PairsStateBuilder.BuildState pairs'', [5]), (''BroadcastDeltas pairs'', [5]),
        (''ReservesExtractor.Map pairs'', [5]),
        (''PricesStateBuilder.BuildState pairs prices'', [6]),
        (''SwapsExtractor.Map pairs prices'', [5]),
        (''TotalPairsStateBuilder.BuildState total_pairs'', [5, 5, 6]),
        (''PCSVolume24hStateBuilder.BuildState volume24h'', [5, 6]),
        (''StoreBlock pairs'', [5]), (''StoreBlock total_pairs'', [1]),
        (''StoreBlock prices'', [6]), (''StoreBlock volume24h'', [5, 6]),
        (''Flush volume24h'', [5, 6]), (''Flush prices'', [6]),
        (''Flush total_pairs'', [1]), (''Flush pairs'', [5])]"
  using ledger_ok_outcome ledger_ok_history by simp

text \<open>
  Claim C6, amended: when the handler returns \<^verbatim>\<open>nil\<close>, every step of the block has
  succeeded in the world the step before left, \<^verbatim>\<open>StoreBlock\<close> has succeeded on every
  store, and then \<^verbatim>\<open>Flush\<close> has run exactly once on every store of the pipeline (the
  four stores of \<^verbatim>\<open>runRoot\<close>): the world the handler leaves is the world of the last
  \<^verbatim>\<open>StoreBlock\<close> passed through the \<^verbatim>\<open>Flush\<close> of every store. Every \<^verbatim>\<open>Flush\<close>
  comes after the broadcast of the deltas of the pairs store and after the
  \<^verbatim>\<open>StoreBlock\<close> of every store. That broadcast is the only one of the block: the
  deltas of the other three stores are flushed without having been broadcast. With
  \<^verbatim>\<open>Flush\<close> as the spec describes it, the delta buffer of every store is empty when
  the handler has returned.
\<close>

theorem flush_once_per_store_after_persistence:
  assumes run: "handler E p blockCount ks1 ks2 block w0 = (Returned None, w', tr)"
      and it1: "iteration (stores p) ks1"
      and it2: "iteration (stores p) ks2"
  shows "(\<exists>blk pairs w2 w3 w4 reserveUpdates w5 w6 swaps w7 w8 w9.
           Protocol block = Some blk
         \<and> PairExtractor_Map E blk (SetCurrentBlock E blk w0) = (Inr pairs, w2)
         \<and> PairsStateBuilder_BuildState E pairs ''pairs'' w2 = (None, w3)
         \<and> BroadcastDeltas E ''pairs'' (Deltas E ''pairs'' w3) w3 = (None, w4)
         \<and> ReservesExtractor_Map E blk ''pairs'' w4 = (Inr reserveUpdates, w5)
         \<and> PricesStateBuilder_BuildState E reserveUpdates ''pairs'' ''prices'' w5 = (None, w6)
         \<and> SwapsExtractor_Map E blk ''pairs'' ''prices'' w6 = (Inr swaps, w7)
         \<and> TotalPairsStateBuilder_BuildState E pairs swaps ''total_pairs'' w7 = (None, w8)
         \<and> PCSVolume24hStateBuilder_BuildState E blk swaps ''volume24h'' w8 = (None, w9)
         \<and> succeedAll (\<lambda>k. StoreBlock E k block) ks1 w9
         \<and> w' = fold (Flush E) ks2 (thread (\<lambda>k. StoreBlock E k block) ks1 w9)
         \<and> map fst tr =
             [Call_SetCurrentBlock, Call_PairExtractor_Map, Call_Pairs_BuildState ''pairs'',
              Call_BroadcastDeltas ''pairs'' (Deltas E ''pairs'' w3), Call_Reserves_Map ''pairs'',
              Call_Prices_BuildState ''pairs'' ''prices'', Call_Swaps_Map ''pairs'' ''prices'',
              Call_TotalPairs_BuildState ''total_pairs'', Call_Volume24h_BuildState ''volume24h'']
             @ map Call_StoreBlock ks1 @ map Call_Flush ks2)
       \<and> set ks1 = stores p \<and> set ks2 = stores p
       \<and> (\<forall>s \<in> stores p. count_list ks2 s = 1)
       \<and> broadcastTopics (map fst tr) = [''pairs'']
       \<and> (Flush_spec E \<longrightarrow> (\<forall>s \<in> stores p. Deltas E s w' = []))"
proof -
  from steady_chain [OF run]
  obtain blk pairs w2 w3 w4 reserveUpdates w5 w6 swaps w7 w8 w9 where
    c: "Protocol block = Some blk"
       "PairExtractor_Map E blk (SetCurrentBlock E blk w0) = (Inr pairs, w2)"
       "PairsStateBuilder_BuildState E pairs ''pairs'' w2 = (None, w3)"
       "BroadcastDeltas E ''pairs'' (Deltas E ''pairs'' w3) w3 = (None, w4)"
       "ReservesExtractor_Map E blk ''pairs'' w4 = (Inr reserveUpdates, w5)"
       "PricesStateBuilder_BuildState E reserveUpdates ''pairs'' ''prices'' w5 = (None, w6)"
       "SwapsExtractor_Map E blk ''pairs'' ''prices'' w6 = (Inr swaps, w7)"
       "TotalPairsStateBuilder_BuildState E pairs swaps ''total_pairs'' w7 = (None, w8)"
       "PCSVolume24hStateBuilder_BuildState E blk swaps ''volume24h'' w8 = (None, w9)"
       "succeedAll (\<lambda>k. StoreBlock E k block) ks1 w9"
    and w': "w' = fold (Flush E) ks2 (thread (\<lambda>k. StoreBlock E k block) ks1 w9)"
    and tr: "tr = map (\<lambda>c. (c, None))
             ([Call_SetCurrentBlock, Call_PairExtractor_Map, Call_Pairs_BuildState ''pairs'',
               Call_BroadcastDeltas ''pairs'' (Deltas E ''pairs'' w3), Call_Reserves_Map ''pairs'',
               Call_Prices_BuildState ''pairs'' ''prices'', Call_Swaps_Map ''pairs'' ''prices'',
               Call_TotalPairs_BuildState ''total_pairs'', Call_Volume24h_BuildState ''volume24h'']
              @ map Call_StoreBlock ks1 @ map Call_Flush ks2)"
    by blast
  from tr have calls: "map fst tr =
             [Call_SetCurrentBlock, Call_PairExtractor_Map, Call_Pairs_BuildState ''pairs'',
              Call_BroadcastDeltas ''pairs'' (Deltas E ''pairs'' w3), Call_Reserves_Map ''pairs'',
              Call_Prices_BuildState ''pairs'' ''prices'', Call_Swaps_Map ''pairs'' ''prices'',
              Call_TotalPairs_BuildState ''total_pairs'', Call_Volume24h_BuildState ''volume24h'']
             @ map Call_StoreBlock ks1 @ map Call_Flush ks2"
    by (simp add: comp_def)
  from it1 it2 have sets: "set ks1 = stores p" "set ks2 = stores p" and d2: "distinct ks2"
    by (simp_all add: iteration_def)
  have cnt: "\<forall>s \<in> stores p. count_list ks2 s = 1"
  proof
    fix s
    assume "s \<in> stores p"
    with sets(2) have "s \<in> set ks2" by simp
    with d2 show "count_list ks2 s = 1" by (rule count_list_distinct)
  qed
  have topics: "broadcastTopics (map fst tr) = [''pairs'']"
    unfolding calls by (simp add: broadcastTopics_append)
  have empty: "Flush_spec E \<longrightarrow> (\<forall>s \<in> stores p. Deltas E s w' = [])"
    unfolding w' using sets(2) by (auto intro: fold_Flush_clears)
  have chain: "\<exists>blk pairs w2 w3 w4 reserveUpdates w5 w6 swaps w7 w8 w9.
           Protocol block = Some blk
         \<and> PairExtractor_Map E blk (SetCurrentBlock E blk w0) = (Inr pairs, w2)
         \<and> PairsStateBuilder_BuildState E pairs ''pairs'' w2 = (None, w3)
         \<and> BroadcastDeltas E ''pairs'' (Deltas E ''pairs'' w3) w3 = (None, w4)
         \<and> ReservesExtractor_Map E blk ''pairs'' w4 = (Inr reserveUpdates, w5)
         \<and> PricesStateBuilder_BuildState E reserveUpdates ''pairs'' ''prices'' w5 = (None, w6)
         \<and> SwapsExtractor_Map E blk ''pairs'' ''prices'' w6 = (Inr swaps, w7)
         \<and> TotalPairsStateBuilder_BuildState E pairs swaps ''total_pairs'' w7 = (None, w8)
         \<and> PCSVolume24hStateBuilder_BuildState E blk swaps ''volume24h'' w8 = (None, w9)
         \<and> succeedAll (\<lambda>k. StoreBlock E k block) ks1 w9
         \<and> w' = fold (Flush E) ks2 (thread (\<lambda>k. StoreBlock E k block) ks1 w9)
         \<and> map fst tr =
             [Call_SetCurrentBlock, Call_PairExtractor_Map, Call_Pairs_BuildState ''pairs'',
              Call_BroadcastDeltas ''pairs'' (Deltas E ''pairs'' w3), Call_Reserves_Map ''pairs'',
              Call_Prices_BuildState ''pairs'' ''prices'', Call_Swaps_Map ''pairs'' ''prices'',
              Call_TotalPairs_BuildState ''total_pairs'', Call_Volume24h_BuildState ''volume24h'']
             @ map Call_StoreBlock ks1 @ map Call_Flush ks2"
    using c w' calls by blast
  show ?thesis
    by (rule conjI [OF chain conjI [OF sets(1) conjI [OF sets(2) conjI [OF cnt conjI [OF topics empty]]]]])
qed

theorem flush_once_per_store_after_persistence_witness:
  "iteration (stores samplePipeline) storeNames
   \<and> iteration (stores samplePipeline) (rev storeNames)
   \<and> Flush_spec (ledgerEnv [])
   \<and> fst (handler (ledgerEnv []) samplePipeline 1000 storeNames (rev storeNames) sampleBlock
            emptyLedger) = Returned None
   \<and> broadcastTopics (map fst (snd (snd (handler (ledgerEnv []) samplePipeline 1000 storeNames
        (rev storeNames) sampleBlock emptyLedger)))) = [''pairs'']
   \<and> Deltas (ledgerEnv []) ''pairs'' (fst (snd (handler (ledgerEnv []) samplePipeline 1000
        storeNames (rev storeNames) sampleBlock emptyLedger))) = []
   \<and> Deltas (ledgerEnv []) ''prices'' (fst (snd (handler (ledgerEnv []) samplePipeline 1000
        storeNames (rev storeNames) sampleBlock emptyLedger))) = []
   \<and> Deltas (ledgerEnv []) ''total_pairs'' (fst (snd (handler (ledgerEnv []) samplePipeline 1000
        storeNames (rev storeNames) sampleBlock emptyLedger))) = []
   \<and> Deltas (ledgerEnv []) ''volume24h'' (fst (snd (handler (ledgerEnv []) samplePipeline 1000
        storeNames (rev storeNames) sampleBlock emptyLedger))) = []"
proof -
  have h1: "iteration (stores samplePipeline) storeNames"
    by (simp add: iteration_def ledger_defs)
  have h2: "iteration (stores samplePipeline) (rev storeNames)"
    by (auto simp: iteration_def ledger_defs)
  have names: "''pairs'' \<in> stores samplePipeline" "''total_pairs'' \<in> stores samplePipeline"
    "''prices'' \<in> stores samplePipeline" "''volume24h'' \<in> stores samplePipeline"
    by (simp_all add: ledger_defs)
  note t = flush_once_per_store_after_persistence [OF ledger_ok_run h1 h2]
  note topics = t [THEN conjunct2, THEN conjunct2, THEN conjunct2, THEN conjunct2, THEN conjunct1]
  note empty = t [THEN conjunct2, THEN conjunct2, THEN conjunct2, THEN conjunct2, THEN conjunct2,
      THEN mp, OF ledger_Flush_spec, THEN bspec]
  from h1 h2 ledger_Flush_spec [of "[]"] ledger_ok_outcome topics
    empty [OF names(1)] empty [OF names(2)] empty [OF names(3)] empty [OF names(4)]
  show ?thesis by simp
qed

subsection \<open>Errors that the driver drops\<close>

text \<open>The handler and the loops do not use \<^verbatim>\<open>Load\<close>.\<close>

lemma writeStates_Load [simp]: "writeStates (E\<lparr>Load := f\<rparr>) ks b w = writeStates E ks b w"
  by (induction ks arbitrary: w) (simp_all split: prod.splits option.splits)

lemma storeBlocks_Load [simp]: "storeBlocks (E\<lparr>Load := f\<rparr>) ks b w = storeBlocks E ks b w"
  by (induction ks arbitrary: w) (simp_all split: prod.splits option.splits)

lemma flushAll_Load [simp]: "flushAll (E\<lparr>Load := f\<rparr>) ks w = flushAll E ks w"
  by (induction ks arbitrary: w) (simp_all split: prod.splits option.splits)

lemma loadStateFromDisk_Load [simp]:
  "loadStateFromDisk (E\<lparr>Load := f\<rparr>) ks n w = loadStateFromDisk E ks n w"
  by (induction ks arbitrary: w) (simp_all split: prod.splits option.splits)

lemma setupSubscriptionHub_Load [simp]:
  "setupSubscriptionHub (E\<lparr>Load := f\<rparr>) ks w = setupSubscriptionHub E ks w"
  by (induction ks arbitrary: w) (simp_all split: prod.splits option.splits)

lemma handler_Load [simp]: "handler (E\<lparr>Load := f\<rparr>) p bc = handler E p bc"
  by (intro ext) (simp add: handler_def Let_def split: prod.splits sum.splits option.splits)

lemma runRoot_Load:
  "fst (runRoot (E\<lparr>Load := \<lambda>w. (r, snd (Load E w))\<rparr>) g cfg args ksInit ksTopics w0)
     = fst (runRoot E g cfg args ksInit ksTopics w0)
   \<and> fst (snd (runRoot (E\<lparr>Load := \<lambda>w. (r, snd (Load E w))\<rparr>) g cfg args ksInit ksTopics w0))
     = fst (snd (runRoot E g cfg args ksInit ksTopics w0))"
  by (simp add: runRoot_def Let_def setupPrintPairUpdates_def case_prod_beta
      split: sum.splits prod.splits option.splits)

lemma sample_stop_failing_run:
  "handler (sampleEnv [''WriteState pairs'', ''Save'']) samplePipeline 5 storeNames storeNames
     sampleBlock sampleWorld =
    (Returned (Some EOF), sampleWorld,
     [(Call_WriteState ''pairs'', Some (Failure ''WriteState pairs'')),
      (Call_WriteState ''total_pairs'', None),
      (Call_WriteState ''prices'', None), (Call_WriteState ''volume24h'', None),
      (Call_Save, Some (Failure ''Save''))])"
  by (simp add: handler_def sample_defs Let_def)

lemma sample_load_failing_run:
  "runRoot (sampleEnv [''Load'']) 200 sampleConfig [] storeNames storeNames sampleWorld =
    (Returned None, sampleWorld,
     [(Call_NewDBinStore ''./localblocks'', None), (Call_NewStore ''./localirr'', None),
      (Call_NewStore ''./rpc-cache'', None), (Call_Load, Some (Failure ''Load'')),
      (Call_NewStore ''./localdata'', None),
      (Call_RegisterTopic ''pairs'', None), (Call_RegisterTopic ''total_pairs'', None),
      (Call_RegisterTopic ''prices'', None), (Call_RegisterTopic ''volume24h'', None),
      (Call_Subscribe ''pairs'', None), (Call_Run, None)])"
proof -
  have a: "blockCountArg [] = Inr 1000"
    by (simp add: blockCountArg_def)
  have g: "\<not> (200 :: int64) <s 100" by (simp add: word_sless_alt)
  show ?thesis
    by (simp add: runRoot_def a g sample_defs Let_def setupPrintPairUpdates_def)
qed

text \<open>
  Claim C5, as the spec states it, has the failures of \<^verbatim>\<open>WriteState\<close> in the stop
  transition, of the cache's \<^verbatim>\<open>Save\<close> and of the cache's \<^verbatim>\<open>Load\<close> surfaced. The driver
  calls the three as statements. In the sample environment \<^verbatim>\<open>WriteState\<close> on the pairs
  store and \<^verbatim>\<open>Save\<close> fail at the stop block, and the handler returns \<^verbatim>\<open>io.EOF\<close>, as it
  does when nothing fails; \<^verbatim>\<open>Load\<close> fails at startup, and \<^verbatim>\<open>runRoot\<close> goes on and
  returns \<^verbatim>\<open>nil\<close>.
\<close>

theorem swallowed_errors_counterexample:
  "startBlockNum samplePipeline + 5 \<le> Number sampleBlock
   \<and> fst (WriteState (sampleEnv [''WriteState pairs'', ''Save'']) ''pairs'' sampleBlock sampleWorld)
       = Some (Failure ''WriteState pairs'')
   \<and> fst (Save (sampleEnv [''WriteState pairs'', ''Save'']) sampleWorld) = Some (Failure ''Save'')
   \<and> fst (handler (sampleEnv [''WriteState pairs'', ''Save'']) samplePipeline 5 storeNames
            storeNames sampleBlock sampleWorld) = Returned (Some EOF)
   \<and> fst (handler (sampleEnv []) samplePipeline 5 storeNames storeNames sampleBlock sampleWorld)
       = Returned (Some EOF)
   \<and> \<not> Is EOF (Failure ''WriteState pairs'') \<and> \<not> Is EOF (Failure ''Save'')
   \<and> fst (Load (sampleEnv [''Load'']) sampleWorld) = Some (Failure ''Load'')
   \<and> fst (runRoot (sampleEnv [''Load'']) 200 sampleConfig [] storeNames storeNames sampleWorld)
       = Returned None"
  unfolding sample_stop_failing_run sample_load_failing_run sample_stop_run
  by (simp add: sample_defs)

text \<open>
  Claim C5, amended: for a block below the stop threshold whose payload decodes, the
  handler returns \<^verbatim>\<open>nil\<close> only when every step of the block (the extractors, the
  state-builders, the broadcast, and \<^verbatim>\<open>StoreBlock\<close> on every store), each run in the
  world the step before left, has reported no error; otherwise it returns a non-nil
  error. The failures of \<^verbatim>\<open>WriteState\<close> and of the cache's \<^verbatim>\<open>Save\<close> in the stop
  transition are discarded: the handler returns \<^verbatim>\<open>io.EOF\<close> whatever they report. A
  failure of the cache's \<^verbatim>\<open>Load\<close> at startup is discarded: the result of
  \<^verbatim>\<open>runRoot\<close> does not depend on what \<^verbatim>\<open>Load\<close> reports.
\<close>

theorem errors_propagated_or_discarded:
  "(\<not> startBlockNum p + blockCount \<le> Number block \<and> Protocol block = Some blk \<longrightarrow>
      (\<exists>e'. fst (handler E p blockCount ks1 ks2 block w0) = Returned (Some e'))
    \<or> (fst (handler E p blockCount ks1 ks2 block w0) = Returned None
        \<and> (\<exists>pairs w2 w3 w4 reserveUpdates w5 w6 swaps w7 w8 w9.
              PairExtractor_Map E blk (SetCurrentBlock E blk w0) = (Inr pairs, w2)
            \<and> PairsStateBuilder_BuildState E pairs ''pairs'' w2 = (None, w3)
            \<and> BroadcastDeltas E ''pairs'' (Deltas E ''pairs'' w3) w3 = (None, w4)
            \<and> ReservesExtractor_Map E blk ''pairs'' w4 = (Inr reserveUpdates, w5)
            \<and> PricesStateBuilder_BuildState E reserveUpdates ''pairs'' ''prices'' w5 = (None, w6)
            \<and> SwapsExtractor_Map E blk ''pairs'' ''prices'' w6 = (Inr swaps, w7)
            \<and> TotalPairsStateBuilder_BuildState E pairs swaps ''total_pairs'' w7 = (None, w8)
            \<and> PCSVolume24hStateBuilder_BuildState E blk swaps ''volume24h'' w8 = (None, w9)
            \<and> succeedAll (\<lambda>k. StoreBlock E k block) ks1 w9)))
   \<and> (startBlockNum p + blockCount \<le> Number block
      \<longrightarrow> fst (handler E p blockCount ks1 ks2 block w0) = Returned (Some EOF))
   \<and> fst (runRoot (E\<lparr>Load := \<lambda>w. (r, snd (Load E w))\<rparr>) g cfg args ksInit ksTopics v0)
       = fst (runRoot E g cfg args ksInit ksTopics v0)"
proof (intro conjI impI)
  assume h: "\<not> startBlockNum p + blockCount \<le> Number block \<and> Protocol block = Some blk"
  then have h1: "\<not> startBlockNum p + blockCount \<le> Number block"
    and h2: "Protocol block = Some blk" by simp_all
  from steady_returns [OF h1 h2, of E ks1 ks2 w0]
  obtain r where r: "fst (handler E p blockCount ks1 ks2 block w0) = Returned r" ..
  show "(\<exists>e'. fst (handler E p blockCount ks1 ks2 block w0) = Returned (Some e'))
    \<or> (fst (handler E p blockCount ks1 ks2 block w0) = Returned None
        \<and> (\<exists>pairs w2 w3 w4 reserveUpdates w5 w6 swaps w7 w8 w9.
              PairExtractor_Map E blk (SetCurrentBlock E blk w0) = (Inr pairs, w2)
            \<and> PairsStateBuilder_BuildState E pairs ''pairs'' w2 = (None, w3)
            \<and> BroadcastDeltas E ''pairs'' (Deltas E ''pairs'' w3) w3 = (None, w4)
            \<and> ReservesExtractor_Map E blk ''pairs'' w4 = (Inr reserveUpdates, w5)
            \<and> PricesStateBuilder_BuildState E reserveUpdates ''pairs'' ''prices'' w5 = (None, w6)
            \<and> SwapsExtractor_Map E blk ''pairs'' ''prices'' w6 = (Inr swaps, w7)
            \<and> TotalPairsStateBuilder_BuildState E pairs swaps ''total_pairs'' w7 = (None, w8)
            \<and> PCSVolume24hStateBuilder_BuildState E blk swaps ''volume24h'' w8 = (None, w9)
            \<and> succeedAll (\<lambda>k. StoreBlock E k block) ks1 w9))"
  proof (cases r)
    case (Some e')
    with r show ?thesis by blast
  next
    case None
    with r have "handler E p blockCount ks1 ks2 block w0
        = (Returned None, fst (snd (handler E p blockCount ks1 ks2 block w0)),
           snd (snd (handler E p blockCount ks1 ks2 block w0)))"
      by (metis prod.collapse)
    from steady_chain [OF this] h obtain pairs w2 w3 w4 reserveUpdates w5 w6 swaps w7 w8 w9 where
      "PairExtractor_Map E blk (SetCurrentBlock E blk w0) = (Inr pairs, w2)"
      "PairsStateBuilder_BuildState E pairs ''pairs'' w2 = (None, w3)"
      "BroadcastDeltas E ''pairs'' (Deltas E ''pairs'' w3) w3 = (None, w4)"
      "ReservesExtractor_Map E blk ''pairs'' w4 = (Inr reserveUpdates, w5)"
      "PricesStateBuilder_BuildState E reserveUpdates ''pairs'' ''prices'' w5 = (None, w6)"
      "SwapsExtractor_Map E blk ''pairs'' ''prices'' w6 = (Inr swaps, w7)"
      "TotalPairsStateBuilder_BuildState E pairs swaps ''total_pairs'' w7 = (None, w8)"
      "PCSVolume24hStateBuilder_BuildState E blk swaps ''volume24h'' w8 = (None, w9)"
      "succeedAll (\<lambda>k. StoreBlock E k block) ks1 w9"
      by auto
    with r None show ?thesis by blast
  qed
next
  assume "startBlockNum p + blockCount \<le> Number block"
  then show "fst (handler E p blockCount ks1 ks2 block w0) = Returned (Some EOF)"
    by (simp add: handler_stop)
next
  show "fst (runRoot (E\<lparr>Load := \<lambda>w. (r, snd (Load E w))\<rparr>) g cfg args ksInit ksTopics v0)
       = fst (runRoot E g cfg args ksInit ksTopics v0)"
    by (rule runRoot_Load [THEN conjunct1])
qed

theorem errors_propagated_or_discarded_witness:
  "\<not> startBlockNum samplePipeline + 1000 \<le> Number sampleBlock
   \<and> Protocol sampleBlock = Some 5
   \<and> fst (TotalPairsStateBuilder_BuildState
            (ledgerEnv [(''TotalPairsStateBuilder.BuildState'', Failure ''boom'')])
            [5] [5, 6] ''total_pairs'' emptyLedger) = Some (Failure ''boom'')
   \<and> (\<exists>e'. fst (handler (ledgerEnv [(''TotalPairsStateBuilder.BuildState'', Failure ''boom'')])
                  samplePipeline 1000 storeNames storeNames sampleBlock emptyLedger)
              = Returned (Some e'))
   \<and> startBlockNum samplePipeline + 5 \<le> Number sampleBlock
   \<and> fst (handler (ledgerEnv [(''WriteState pairs'', Failure ''disk full''),
                                (''Save'', Failure ''disk full'')])
            samplePipeline 5 storeNames storeNames sampleBlock emptyLedger)
       = Returned (Some EOF)"
proof -
  let ?E = "ledgerEnv [(''TotalPairsStateBuilder.BuildState'', Failure ''boom'')]"
  have h1: "\<not> startBlockNum samplePipeline + 1000 \<le> Number sampleBlock"
    by (simp add: ledger_defs)
  have h2: "Protocol sampleBlock = Some 5"
    by (simp add: ledger_defs)
  have h3: "fst (TotalPairsStateBuilder_BuildState ?E [5] [5, 6] ''total_pairs'' emptyLedger)
      = Some (Failure ''boom'')"
    by (simp add: ledger_defs)
  have h5: "startBlockNum samplePipeline + 5 \<le> Number sampleBlock"
    by (simp add: ledger_defs)
  have never: "TotalPairsStateBuilder_BuildState ?E pairs swaps ''total_pairs'' w7 \<noteq> (None, w8)"
    for pairs swaps w7 w8
    by (simp add: ledger_defs)
  note a = errors_propagated_or_discarded [where p = samplePipeline and blockCount = 1000
      and block = sampleBlock and blk = 5 and E = ?E
      and ?ks1.0 = storeNames and ?ks2.0 = storeNames and ?w0.0 = emptyLedger,
      THEN conjunct1, THEN mp, OF conjI [OF h1 h2]]
  note b = errors_propagated_or_discarded [where p = samplePipeline and blockCount = 5
      and block = sampleBlock
      and E = "ledgerEnv [(''WriteState pairs'', Failure ''disk full''),
                          (''Save'', Failure ''disk full'')]"
      and ?ks1.0 = storeNames and ?ks2.0 = storeNames and ?w0.0 = emptyLedger,
      THEN conjunct2, THEN conjunct1, THEN mp, OF h5]
  from a never have "\<exists>e'. fst (handler ?E samplePipeline 1000 storeNames storeNames sampleBlock
      emptyLedger) = Returned (Some e')"
    by blast
  with h1 h2 h3 h5 b show ?thesis by simp
qed

subsection \<open>Loading the state at startup\<close>

lemma loadStateFromDisk_succeed:
  "succeedAll (\<lambda>k. Init E k n) ks w \<Longrightarrow>
     loadStateFromDisk E ks n w =
       (None, thread (\<lambda>k. Init E k n) ks w, map (\<lambda>s. (Call_Init s n, None)) ks)"
  by (induction ks arbitrary: w) (auto split: prod.splits option.splits)

lemma loadStateFromDisk_fail:
  "succeedAll (\<lambda>k. Init E k n) pre w \<Longrightarrow>
   Init E s n (thread (\<lambda>k. Init E k n) pre w) = (Some e, w') \<Longrightarrow>
     loadStateFromDisk E (pre @ s # suf) n w =
       (Some (Wrapped (loadStateContext s n) e), w',
        map (\<lambda>s. (Call_Init s n, None)) pre @ [(Call_Init s n, Some e)])"
  by (induction pre arbitrary: w) (auto split: prod.splits option.splits)

lemma setupSubscriptionHub_succeed:
  "succeedAll (RegisterTopic E) ks w \<Longrightarrow>
     setupSubscriptionHub E ks w =
       (None, thread (RegisterTopic E) ks w, map (\<lambda>s. (Call_RegisterTopic s, None)) ks)"
  by (induction ks arbitrary: w) (auto split: prod.splits option.splits)

text \<open>Where the start block is not past genesis, the driver does not use \<^verbatim>\<open>Init\<close>.\<close>

lemma writeStates_Init [simp]: "writeStates (E\<lparr>Init := f\<rparr>) ks b w = writeStates E ks b w"
  by (induction ks arbitrary: w) (simp_all split: prod.splits option.splits)

lemma storeBlocks_Init [simp]: "storeBlocks (E\<lparr>Init := f\<rparr>) ks b w = storeBlocks E ks b w"
  by (induction ks arbitrary: w) (simp_all split: prod.splits option.splits)

lemma flushAll_Init [simp]: "flushAll (E\<lparr>Init := f\<rparr>) ks w = flushAll E ks w"
  by (induction ks arbitrary: w) (simp_all split: prod.splits option.splits)

lemma setupSubscriptionHub_Init [simp]:
  "setupSubscriptionHub (E\<lparr>Init := f\<rparr>) ks w = setupSubscriptionHub E ks w"
  by (induction ks arbitrary: w) (simp_all split: prod.splits option.splits)

lemma handler_Init [simp]: "handler (E\<lparr>Init := f\<rparr>) p bc = handler E p bc"
  by (intro ext) (simp add: handler_def Let_def split: prod.splits sum.splits option.splits)

lemma runRoot_Init:
  "\<not> g <s start_block cfg \<Longrightarrow>
     runRoot (E\<lparr>Init := f\<rparr>) g cfg args ksInit ksTopics w0 = runRoot E g cfg args ksInit ksTopics w0"
  by (simp add: runRoot_def Let_def setupPrintPairUpdates_def
      split: sum.splits prod.splits option.splits)

text \<open>
  Claim C7: take a run of \<^verbatim>\<open>runRoot\<close> whose block count argument is accepted and whose
  four \<^verbatim>\<open>dstore\<close> stores are set up, the last set-up leaving the world \<open>w5\<close>. When the
  start block is not greater than the genesis block (as signed 64-bit integers), no
  state is loaded: the run is the same whatever \<^verbatim>\<open>Init\<close> would do. When it is greater,
  \<^verbatim>\<open>Init\<close> is called at the start block on the stores, in the order of the
  \<^verbatim>\<open>range\<close>, each call in the world the call before left, from \<open>w5\<close> on. If the
  \<^verbatim>\<open>Init\<close> of a store fails after those before it have succeeded, \<^verbatim>\<open>runRoot\<close>
  returns, in the world that \<^verbatim>\<open>Init\<close> left, an error that wraps the failure and whose
  message names the store and the block height. If every \<^verbatim>\<open>Init\<close> succeeds, every
  store has been initialised, and startup goes on (topics, subscription, the block
  source) in the world that the last \<^verbatim>\<open>Init\<close> left. The \<^verbatim>\<open>range\<close> visits each of the
  four stores once.
\<close>

theorem state_loaded_past_genesis:
  assumes a: "blockCountArg args = Inr bc"
      and s1: "NewDBinStore E (blocks_store_url cfg) w0 = (None, w1)"
      and s2: "NewStore E (irr_indexes_url cfg) w1 = (None, w2)"
      and s3: "NewStore E ''./rpc-cache'' w2 = (None, w3)"
      and s4: "NewStore E (state_store_url cfg) (snd (Load E w3)) = (None, w5)"
      and it: "iteration (set storeNames) ksInit"
  shows
   "(let R = runRoot E g cfg args ksInit ksTopics w0;
         n = start_block cfg;
         W = thread (\<lambda>k. Init E k n) ksInit w5
     in
     (\<not> g <s n \<longrightarrow>
        runRoot (E\<lparr>Init := f\<rparr>) g cfg args ksInit ksTopics w0 = R)
   \<and> (g <s n \<longrightarrow>
        (ksInit = pre @ s # suf \<and> succeedAll (\<lambda>k. Init E k n) pre w5
          \<and> Init E s n (thread (\<lambda>k. Init E k n) pre w5) = (Some e, w6) \<longrightarrow>
           fst R = Returned (Some (Wrapped (loadStateContext s n) e)) \<and> fst (snd R) = w6
         \<and> Error (Wrapped (loadStateContext s n) e)
             = ''could not load state for store '' @ s @ '' at block num ''
                 @ decimal (unat n) @ '': '' @ Error e)
      \<and> (succeedAll (\<lambda>k. Init E k n) ksInit w5
          \<and> succeedAll (RegisterTopic E) ksTopics W
          \<and> Subscribe E ''pairs'' (thread (RegisterTopic E) ksTopics W) = (None, w8)
          \<and> Run E n (handler E \<lparr>startBlockNum = n, stores = set storeNames\<rparr> bc) w8 = (rr, w9)
          \<longrightarrow>
           fst R = Returned (map_option (Wrapped ''running the firehose: '') rr)
         \<and> fst (snd R) = w9
         \<and> (\<forall>k \<in> set storeNames. (Call_Init k n, None) \<in> set (snd (snd R)))))
   \<and> set ksInit = set storeNames
   \<and> (\<forall>k \<in> set storeNames. count_list ksInit k = 1))"
proof -
  from it have ks: "set ksInit = set storeNames" "distinct ksInit"
    by (simp_all add: iteration_def)
  obtain rl w4 where l: "Load E w3 = (rl, w4)" by (cases "Load E w3")
  with s4 have s4': "NewStore E (state_store_url cfg) w4 = (None, w5)" by simp
  have c1: "\<not> g <s start_block cfg \<longrightarrow>
        runRoot (E\<lparr>Init := f\<rparr>) g cfg args ksInit ksTopics w0
          = runRoot E g cfg args ksInit ksTopics w0"
    by (simp add: runRoot_Init)
  have c2: "fst (runRoot E g cfg args ksInit ksTopics w0)
              = Returned (Some (Wrapped (loadStateContext s (start_block cfg)) e))
         \<and> fst (snd (runRoot E g cfg args ksInit ksTopics w0)) = w6
         \<and> Error (Wrapped (loadStateContext s (start_block cfg)) e)
             = ''could not load state for store '' @ s @ '' at block num ''
                 @ decimal (unat (start_block cfg)) @ '': '' @ Error e"
    if g: "g <s start_block cfg" and k: "ksInit = pre @ s # suf"
      and ok: "succeedAll (\<lambda>k. Init E k (start_block cfg)) pre w5"
      and bad: "Init E s (start_block cfg) (thread (\<lambda>k. Init E k (start_block cfg)) pre w5)
                 = (Some e, w6)"
    using a s1 s2 s3 l s4' g loadStateFromDisk_fail [OF ok bad, of suf]
    by (simp add: runRoot_def Let_def k loadStateContext_def)
  have c3: "fst (runRoot E g cfg args ksInit ksTopics w0)
              = Returned (map_option (Wrapped ''running the firehose: '') rr)
         \<and> fst (snd (runRoot E g cfg args ksInit ksTopics w0)) = w9
         \<and> (\<forall>k \<in> set storeNames. (Call_Init k (start_block cfg), None)
               \<in> set (snd (snd (runRoot E g cfg args ksInit ksTopics w0))))"
    if g: "g <s start_block cfg"
      and ok: "succeedAll (\<lambda>k. Init E k (start_block cfg)) ksInit w5"
      and hub: "succeedAll (RegisterTopic E) ksTopics
                  (thread (\<lambda>k. Init E k (start_block cfg)) ksInit w5)"
      and sub: "Subscribe E ''pairs'' (thread (RegisterTopic E) ksTopics
                  (thread (\<lambda>k. Init E k (start_block cfg)) ksInit w5)) = (None, w8)"
      and run: "Run E (start_block cfg)
                  (handler E \<lparr>startBlockNum = start_block cfg, stores = set storeNames\<rparr> bc) w8
                 = (rr, w9)"
    using a s1 s2 s3 l s4' g loadStateFromDisk_succeed [OF ok]
      setupSubscriptionHub_succeed [OF hub] sub run ks(1)
    by (cases rr) (auto simp: runRoot_def Let_def setupPrintPairUpdates_def)
  have c4: "\<forall>k \<in> set storeNames. count_list ksInit k = 1"
  proof
    fix k
    assume "k \<in> set storeNames"
    with ks(1) have "k \<in> set ksInit" by simp
    with ks(2) show "count_list ksInit k = 1"
      by (induction ksInit) (auto simp: count_list_0_iff)
  qed
  have p2: "ksInit = pre @ s # suf \<and> succeedAll (\<lambda>k. Init E k (start_block cfg)) pre w5
          \<and> Init E s (start_block cfg) (thread (\<lambda>k. Init E k (start_block cfg)) pre w5)
              = (Some e, w6) \<longrightarrow>
           fst (runRoot E g cfg args ksInit ksTopics w0)
             = Returned (Some (Wrapped (loadStateContext s (start_block cfg)) e))
         \<and> fst (snd (runRoot E g cfg args ksInit ksTopics w0)) = w6
         \<and> Error (Wrapped (loadStateContext s (start_block cfg)) e)
             = ''could not load state for store '' @ s @ '' at block num ''
                 @ decimal (unat (start_block cfg)) @ '': '' @ Error e"
    if g: "g <s start_block cfg"
  proof
    assume h: "ksInit = pre @ s # suf \<and> succeedAll (\<lambda>k. Init E k (start_block cfg)) pre w5
          \<and> Init E s (start_block cfg) (thread (\<lambda>k. Init E k (start_block cfg)) pre w5)
              = (Some e, w6)"
    show "fst (runRoot E g cfg args ksInit ksTopics w0)
             = Returned (Some (Wrapped (loadStateContext s (start_block cfg)) e))
         \<and> fst (snd (runRoot E g cfg args ksInit ksTopics w0)) = w6
         \<and> Error (Wrapped (loadStateContext s (start_block cfg)) e)
             = ''could not load state for store '' @ s @ '' at block num ''
                 @ decimal (unat (start_block cfg)) @ '': '' @ Error e"
      by (rule c2 [OF g h [THEN conjunct1] h [THEN conjunct2, THEN conjunct1]
            h [THEN conjunct2, THEN conjunct2]])
  qed
  have p3: "succeedAll (\<lambda>k. Init E k (start_block cfg)) ksInit w5
          \<and> succeedAll (RegisterTopic E) ksTopics
               (thread (\<lambda>k. Init E k (start_block cfg)) ksInit w5)
          \<and> Subscribe E ''pairs'' (thread (RegisterTopic E) ksTopics
               (thread (\<lambda>k. Init E k (start_block cfg)) ksInit w5)) = (None, w8)
          \<and> Run E (start_block cfg)
               (handler E \<lparr>startBlockNum = start_block cfg, stores = set storeNames\<rparr> bc) w8
              = (rr, w9)
          \<longrightarrow>
           fst (runRoot E g cfg args ksInit ksTopics w0)
             = Returned (map_option (Wrapped ''running the firehose: '') rr)
         \<and> fst (snd (runRoot E g cfg args ksInit ksTopics w0)) = w9
         \<and> (\<forall>k \<in> set storeNames. (Call_Init k (start_block cfg), None)
               \<in> set (snd (snd (runRoot E g cfg args ksInit ksTopics w0))))"
    if g: "g <s start_block cfg"
  proof
    assume h: "succeedAll (\<lambda>k. Init E k (start_block cfg)) ksInit w5
          \<and> succeedAll (RegisterTopic E) ksTopics
               (thread (\<lambda>k. Init E k (start_block cfg)) ksInit w5)
          \<and> Subscribe E ''pairs'' (thread (RegisterTopic E) ksTopics
               (thread (\<lambda>k. Init E k (start_block cfg)) ksInit w5)) = (None, w8)
          \<and> Run E (start_block cfg)
               (handler E \<lparr>startBlockNum = start_block cfg, stores = set storeNames\<rparr> bc) w8
              = (rr, w9)"
    show "fst (runRoot E g cfg args ksInit ksTopics w0)
             = Returned (map_option (Wrapped ''running the firehose: '') rr)
         \<and> fst (snd (runRoot E g cfg args ksInit ksTopics w0)) = w9
         \<and> (\<forall>k \<in> set storeNames. (Call_Init k (start_block cfg), None)
               \<in> set (snd (snd (runRoot E g cfg args ksInit ksTopics w0))))"
      by (rule c3 [OF g h [THEN conjunct1] h [THEN conjunct2, THEN conjunct1]
            h [THEN conjunct2, THEN conjunct2, THEN conjunct1]
            h [THEN conjunct2, THEN conjunct2, THEN conjunct2]])
  qed
  have c23: "g <s start_block cfg \<longrightarrow>
      (ksInit = pre @ s # suf \<and> succeedAll (\<lambda>k. Init E k (start_block cfg)) pre w5
          \<and> Init E s (start_block cfg) (thread (\<lambda>k. Init E k (start_block cfg)) pre w5)
              = (Some e, w6) \<longrightarrow>
           fst (runRoot E g cfg args ksInit ksTopics w0)
             = Returned (Some (Wrapped (loadStateContext s (start_block cfg)) e))
         \<and> fst (snd (runRoot E g cfg args ksInit ksTopics w0)) = w6
         \<and> Error (Wrapped (loadStateContext s (start_block cfg)) e)
             = ''could not load state for store '' @ s @ '' at block num ''
                 @ decimal (unat (start_block cfg)) @ '': '' @ Error e)
    \<and> (succeedAll (\<lambda>k. Init E k (start_block cfg)) ksInit w5
          \<and> succeedAll (RegisterTopic E) ksTopics
               (thread (\<lambda>k. Init E k (start_block cfg)) ksInit w5)
          \<and> Subscribe E ''pairs'' (thread (RegisterTopic E) ksTopics
               (thread (\<lambda>k. Init E k (start_block cfg)) ksInit w5)) = (None, w8)
          \<and> Run E (start_block cfg)
               (handler E \<lparr>startBlockNum = start_block cfg, stores = set storeNames\<rparr> bc) w8
              = (rr, w9)
          \<longrightarrow>
           fst (runRoot E g cfg args ksInit ksTopics w0)
             = Returned (map_option (Wrapped ''running the firehose: '') rr)
         \<and> fst (snd (runRoot E g cfg args ksInit ksTopics w0)) = w9
         \<and> (\<forall>k \<in> set storeNames. (Call_Init k (start_block cfg), None)
               \<in> set (snd (snd (runRoot E g cfg args ksInit ksTopics w0)))))"
    by (rule impI, rule conjI, erule p2, erule p3)
  show ?thesis
    unfolding Let_def
    by (rule conjI [OF c1 conjI [OF c23 conjI [OF ks(1) c4]]])
qed

lemma ledger_init_args: "blockCountArg [''7''] = Inr 7"
  by (simp add: blockCountArg_def ParseInt_def digit_of_def)

theorem state_loaded_past_genesis_witness:
  "iteration (set storeNames) storeNames
   \<and> (0 :: int64) <s start_block sampleConfig
   \<and> fst (Init (ledgerEnv [(''Init prices'', Failure ''no checkpoint'')]) ''prices'' 100 emptyLedger)
       = Some (Failure ''no checkpoint'')
   \<and> fst (runRoot (ledgerEnv [(''Init prices'', Failure ''no checkpoint'')]) 0 sampleConfig [''7'']
            storeNames storeNames emptyLedger)
       = Returned (Some (Wrapped (loadStateContext ''prices'' 100) (Failure ''no checkpoint'')))
   \<and> history (fst (snd (runRoot (ledgerEnv [(''Init prices'', Failure ''no checkpoint'')]) 0
            sampleConfig [''7''] storeNames storeNames emptyLedger)))
       = [(''NewDBinStore ./localblocks'', []), (''NewStore ./localirr'', []),
          (''NewStore ./rpc-cache'', []), (''Load'', []), (''NewStore ./localdata'', []),
          (''Init pairs'', [100]), (''Init total_pairs'', [100]), (''Init prices'', [100])]
   \<and> Error (Wrapped (loadStateContext ''prices'' 100) (Failure ''no checkpoint''))
       = ''could not load state for store prices at block num 100: no checkpoint''
   \<and> fst (runRoot (ledgerEnv []) 0 sampleConfig [''7''] storeNames (rev storeNames) emptyLedger)
       = Returned None
   \<and> history (fst (snd (runRoot (ledgerEnv []) 0 sampleConfig [''7''] storeNames
            (rev storeNames) emptyLedger)))
       = [(''NewDBinStore ./localblocks'', []), (''NewStore ./localirr'', []),
          (''NewStore ./rpc-cache'', []), (''Load'', []), (''NewStore ./localdata'', []),
          (''Init pairs'', [100]), (''Init total_pairs'', [100]), (''Init prices'', [100]),
          (''Init volume24h'', [100]),
          (''RegisterTopic volume24h'', []), (''RegisterTopic prices'', []),
          (''RegisterTopic total_pairs'', []), (''RegisterTopic pairs'', []),
          (''Subscribe pairs'', []), (''Run'', [100])]
   \<and> \<not> (200 :: int64) <s start_block sampleConfig
   \<and> history (fst (snd (runRoot (ledgerEnv [(''Init prices'', Failure ''no checkpoint'')]) 200
            sampleConfig [''7''] storeNames (rev storeNames) emptyLedger)))
       = [(''NewDBinStore ./localblocks'', []), (''NewStore ./localirr'', []),
          (''NewStore ./rpc-cache'', []), (''Load'', []), (''NewStore ./localdata'', []),
          (''RegisterTopic volume24h'', []), (''RegisterTopic prices'', []),
          (''RegisterTopic total_pairs'', []), (''RegisterTopic pairs'', []),
          (''Subscribe pairs'', []), (''Run'', [100])]"
proof -
  let ?E = "ledgerEnv [(''Init prices'', Failure ''no checkpoint'')]"
  let ?v1 = "snd (NewDBinStore ?E (blocks_store_url sampleConfig) emptyLedger)"
  let ?v2 = "snd (NewStore ?E (irr_indexes_url sampleConfig) ?v1)"
  let ?v3 = "snd (NewStore ?E ''./rpc-cache'' ?v2)"
  let ?v5 = "snd (NewStore ?E (state_store_url sampleConfig) (snd (Load ?E ?v3)))"
  let ?v6 = "snd (Init ?E ''prices'' (start_block sampleConfig)
                (thread (\<lambda>k. Init ?E k (start_block sampleConfig)) [''pairs'', ''total_pairs''] ?v5))"
  let ?F = "ledgerEnv []"
  let ?u1 = "snd (NewDBinStore ?F (blocks_store_url sampleConfig) emptyLedger)"
  let ?u2 = "snd (NewStore ?F (irr_indexes_url sampleConfig) ?u1)"
  let ?u3 = "snd (NewStore ?F ''./rpc-cache'' ?u2)"
  let ?u5 = "snd (NewStore ?F (state_store_url sampleConfig) (snd (Load ?F ?u3)))"
  let ?U = "thread (\<lambda>k. Init ?F k (start_block sampleConfig)) storeNames ?u5"
  let ?u7 = "thread (RegisterTopic ?F) (rev storeNames) ?U"
  let ?u8 = "snd (Subscribe ?F ''pairs'' ?u7)"
  let ?u9 = "snd (Run ?F (start_block sampleConfig)
                (handler ?F \<lparr>startBlockNum = start_block sampleConfig, stores = set storeNames\<rparr> 7)
                ?u8)"
  have it: "iteration (set storeNames) storeNames"
    by (simp add: iteration_def storeNames_def)
  have g: "(0 :: int64) <s start_block sampleConfig"
    by (simp add: sampleConfig_def word_sless_alt)
  have g2: "\<not> (200 :: int64) <s start_block sampleConfig"
    by (simp add: sampleConfig_def word_sless_alt)
  have s1: "NewDBinStore ?E (blocks_store_url sampleConfig) emptyLedger = (None, ?v1)"
    by (simp add: ledger_defs)
  have s2: "NewStore ?E (irr_indexes_url sampleConfig) ?v1 = (None, ?v2)"
    by (simp add: ledger_defs)
  have s3: "NewStore ?E ''./rpc-cache'' ?v2 = (None, ?v3)"
    by (simp add: ledger_defs)
  have s4: "NewStore ?E (state_store_url sampleConfig) (snd (Load ?E ?v3)) = (None, ?v5)"
    by (simp add: ledger_defs)
  have k: "storeNames = [''pairs'', ''total_pairs''] @ ''prices'' # [''volume24h'']"
    by (simp add: storeNames_def)
  have ok: "succeedAll (\<lambda>k. Init ?E k (start_block sampleConfig)) [''pairs'', ''total_pairs''] ?v5"
    by (simp add: ledger_defs)
  have bad: "Init ?E ''prices'' (start_block sampleConfig)
       (thread (\<lambda>k. Init ?E k (start_block sampleConfig)) [''pairs'', ''total_pairs''] ?v5)
       = (Some (Failure ''no checkpoint''), ?v6)"
    by (simp add: ledger_defs)
  have i: "fst (Init ?E ''prices'' 100 emptyLedger) = Some (Failure ''no checkpoint'')"
    by (simp add: ledger_defs)
  have d: "decimal 100 = ''100''" by code_simp
  have u: "start_block sampleConfig = 100" by (simp add: sampleConfig_def)
  note t = state_loaded_past_genesis [OF ledger_init_args s1 s2 s3 s4 it, unfolded Let_def,
      where g = 0 and ksTopics = storeNames, THEN conjunct2, THEN conjunct1, THEN mp, OF g,
      THEN conjunct1, THEN mp, OF conjI [OF k conjI [OF ok bad]]]
  have hist: "history ?v6
       = [(''NewDBinStore ./localblocks'', []), (''NewStore ./localirr'', []),
          (''NewStore ./rpc-cache'', []), (''Load'', []), (''NewStore ./localdata'', []),
          (''Init pairs'', [100]), (''Init total_pairs'', [100]), (''Init prices'', [100])]"
    by (simp add: ledger_defs)
  from t have e: "Error (Wrapped (loadStateContext ''prices'' 100) (Failure ''no checkpoint''))
       = ''could not load state for store prices at block num 100: no checkpoint''"
    unfolding u by (simp add: d)
  have q1: "NewDBinStore ?F (blocks_store_url sampleConfig) emptyLedger = (None, ?u1)"
    by (simp add: ledger_defs)
  have q2: "NewStore ?F (irr_indexes_url sampleConfig) ?u1 = (None, ?u2)"
    by (simp add: ledger_defs)
  have q3: "NewStore ?F ''./rpc-cache'' ?u2 = (None, ?u3)"
    by (simp add: ledger_defs)
  have q4: "NewStore ?F (state_store_url sampleConfig) (snd (Load ?F ?u3)) = (None, ?u5)"
    by (simp add: ledger_defs)
  have qi: "succeedAll (\<lambda>k. Init ?F k (start_block sampleConfig)) storeNames ?u5"
    by (simp add: ledger_defs)
  have qh: "succeedAll (RegisterTopic ?F) (rev storeNames) ?U"
    by (simp add: ledger_defs)
  have qs: "Subscribe ?F ''pairs'' ?u7 = (None, ?u8)"
    by (simp add: ledger_defs)
  have qr: "Run ?F (start_block sampleConfig)
              (handler ?F \<lparr>startBlockNum = start_block sampleConfig, stores = set storeNames\<rparr> 7)
              ?u8 = (None, ?u9)"
    by (simp add: ledger_defs)
  note t2 = state_loaded_past_genesis [OF ledger_init_args q1 q2 q3 q4 it, unfolded Let_def,
      where g = 0 and ksTopics = "rev storeNames", THEN conjunct2, THEN conjunct1, THEN mp, OF g,
      THEN conjunct2, THEN mp, OF conjI [OF qi conjI [OF qh conjI [OF qs qr]]]]
  have hist2: "history ?u9
       = [(''NewDBinStore ./localblocks'', []), (''NewStore ./localirr'', []),
          (''NewStore ./rpc-cache'', []), (''Load'', []), (''NewStore ./localdata'', []),
          (''Init pairs'', [100]), (''Init total_pairs'', [100]), (''Init prices'', [100]),
          (''Init volume24h'', [100]),
          (''RegisterTopic volume24h'', []), (''RegisterTopic prices'', []),
          (''RegisterTopic total_pairs'', []), (''RegisterTopic pairs'', []),
          (''Subscribe pairs'', []), (''Run'', [100])]"
    by (simp add: ledger_defs)
  note t3 = state_loaded_past_genesis [OF ledger_init_args q1 q2 q3 q4 it, unfolded Let_def,
      where g = 200 and ksTopics = "rev storeNames" and f = "Init ?E",
      THEN conjunct1, THEN mp, OF g2]
  have same: "?F\<lparr>Init := Init ?E\<rparr> = ?E"
    by (simp add: ledgerEnv_def)
  have hist3: "history (fst (snd (runRoot ?F 200 sampleConfig [''7''] storeNames
            (rev storeNames) emptyLedger)))
       = [(''NewDBinStore ./localblocks'', []), (''NewStore ./localirr'', []),
          (''NewStore ./rpc-cache'', []), (''Load'', []), (''NewStore ./localdata'', []),
          (''RegisterTopic volume24h'', []), (''RegisterTopic prices'', []),
          (''RegisterTopic total_pairs'', []), (''RegisterTopic pairs'', []),
          (''Subscribe pairs'', []), (''Run'', [100])]"
    using g2 ledger_init_args
    by (simp add: runRoot_def Let_def setupPrintPairUpdates_def ledger_defs)
  from t3 have r3: "runRoot ?E 200 sampleConfig [''7''] storeNames (rev storeNames) emptyLedger
        = runRoot ?F 200 sampleConfig [''7''] storeNames (rev storeNames) emptyLedger"
    unfolding same .
  from t hist it g i e t2 hist2 g2 hist3 show ?thesis
    unfolding u r3 by simp
qed

subsection \<open>The pair-updates subscriber\<close>

text \<open>\<^verbatim>\<open>strings.HasPrefix\<close> is the prefix order on lists.\<close>

lemma HasPrefix_prefix: "HasPrefix s pre = prefix pre s"
  by (metis HasPrefix_def prefix_def take_is_prefix prefix_length_le append_eq_conv_conj)

text \<open>
  Claim C8: the subscriber on the topic "pairs" hands to \<^verbatim>\<open>PrintDelta\<close> exactly the
  delivered deltas whose key starts with "pair", in the order of delivery, and skips the
  others. For deliveries \<open>ds\<close> without an error the printed deltas are the deltas of
  \<open>ds\<close> with that prefix, and the loop goes on waiting; in general (\<open>rs\<close>) they are
  those delivered before the first error of \<^verbatim>\<open>Next\<close>, which ends the process.
\<close>

theorem subscriber_prints_exactly_pair_keys:
  fixes ds :: "'p delta list" and rs :: "(error + 'p delta) list"
  shows "fst (printPairUpdates (map Inr ds)) = filter (\<lambda>d. prefix ''pair'' (Key d)) ds
   \<and> snd (printPairUpdates (map Inr ds)) = None
   \<and> fst (printPairUpdates rs)
       = filter (\<lambda>d. prefix ''pair'' (Key d)) (map projr (takeWhile (\<lambda>r. \<not> isl r) rs))"
proof -
  have a: "fst (printPairUpdates rs)
       = filter (\<lambda>d. prefix ''pair'' (Key d)) (map projr (takeWhile (\<lambda>r. \<not> isl r) rs))"
    for rs :: "(error + 'p delta) list"
    by (induction rs rule: printPairUpdates.induct)
       (auto simp: HasPrefix_prefix split: prod.splits)
  have b: "snd (printPairUpdates (map Inr ds)) = None"
    by (induction ds) (auto split: prod.splits)
  have c: "map projr (takeWhile (\<lambda>r. \<not> isl r) (map Inr ds :: (error + 'p delta) list)) = ds"
    by (induction ds) simp_all
  from a [of "map Inr ds"] a [of rs] b c show ?thesis by simp
qed


theorem subscriber_prints_exactly_pair_keys_witness:
  "fst (printPairUpdates
          [Inr \<lparr>Key = ''pair:0x1'', Payload = 1 :: nat\<rparr>, Inr \<lparr>Key = ''total'', Payload = 2\<rparr>,
           Inr \<lparr>Key = ''pai'', Payload = 3\<rparr>, Inr \<lparr>Key = ''pair'', Payload = 4\<rparr>])
     = [\<lparr>Key = ''pair:0x1'', Payload = 1\<rparr>, \<lparr>Key = ''pair'', Payload = 4\<rparr>]"
  using subscriber_prints_exactly_pair_keys
    [of "[\<lparr>Key = ''pair:0x1'', Payload = 1 :: nat\<rparr>, \<lparr>Key = ''total'', Payload = 2\<rparr>,
          \<lparr>Key = ''pai'', Payload = 3\<rparr>, \<lparr>Key = ''pair'', Payload = 4\<rparr>]" "[]"]
  by simp

subsection \<open>The block count argument\<close>

text \<open>
  Claim C9: with exactly one positional argument that \<^verbatim>\<open>strconv.ParseInt\<close> rejects, the
  error path evaluates \<^verbatim>\<open>args[1]\<close> on a one-element slice: \<^verbatim>\<open>runRoot\<close> panics, before
  any call on a collaborator, instead of returning the "invalid block count" error.
\<close>

theorem single_bad_argument_panics:
  assumes "length args = 1" and "ParseInt (args ! 0) = None"
  shows "blockCountArg args = Inl Panicked
       \<and> runRoot E genesisBlock cfg args ksInit ksTopics w0 = (Panicked, w0, [])"
  using assms by (simp add: blockCountArg_def runRoot_def)

theorem single_bad_argument_panics_witness:
  "length [''abc''] = 1 \<and> ParseInt ([''abc''] ! 0) = None
   \<and> runRoot (sampleEnv []) 0 sampleConfig [''abc''] storeNames storeNames sampleWorld
       = (Panicked, sampleWorld, [])"
proof -
  have h1: "length [''abc''] = 1" by simp
  have h2: "ParseInt ([''abc''] ! 0) = None" by (simp add: ParseInt_def digit_of_def)
  from single_bad_argument_panics [OF h1 h2, where E = "sampleEnv []" and genesisBlock = 0
      and cfg = sampleConfig and ksInit = storeNames and ksTopics = storeNames
      and ?w0.0 = sampleWorld] h1 h2
  show ?thesis by blast
qed

lemma ParseInt_range: "ParseInt s = Some n \<Longrightarrow> - (2 ^ 63) \<le> n \<and> n < 2 ^ 63"
  by (auto simp: ParseInt_def Let_def split: list.splits option.splits if_splits)

lemma neg_blockCount:
  fixes n :: int
  assumes "- (2 ^ 63) \<le> n" "n < 0"
  shows "uint (word_of_int n :: uint64) = n + 2 ^ 64"
proof -
  have "uint (word_of_int n :: uint64) = n mod 2 ^ 64"
    by (simp add: uint_word_of_int)
  also have "\<dots> = (n + 2 ^ 64) mod 2 ^ 64" by simp
  also have "\<dots> = n + 2 ^ 64" using assms by (intro mod_pos_pos_trivial) simp_all
  finally show ?thesis .
qed

text \<open>
  Claim C10: when the first positional argument parses to a negative \<open>n\<close>, the block
  count is \<open>n\<close> modulo \<open>2\<^sup>6\<^sup>4\<close>, at least \<open>2\<^sup>6\<^sup>3\<close>; the threshold
  \<^verbatim>\<open>startBlockNum + blockCount\<close> is the sum modulo \<open>2\<^sup>6\<^sup>4\<close>; and whenever the start
  block is at least \<open>-n\<close> the threshold wraps below the start block, so that every block
  from the start block on, the first one included, takes the stop branch.
\<close>

theorem negative_block_count_wraps:
  assumes p: "ParseInt a = Some n" and neg: "n < 0"
  shows "\<exists>bc. blockCountArg (a # rest) = Inr bc
         \<and> uint bc = n mod 2 ^ 64 \<and> 2 ^ 63 \<le> uint bc
         \<and> unat (start + bc) = (unat start + unat bc) mod 2 ^ 64
         \<and> (nat (- n) \<le> unat start \<longrightarrow>
               start + bc < start
             \<and> (start \<le> Number block \<longrightarrow>
                  fst (handler E \<lparr>startBlockNum = start, stores = S\<rparr> bc ks1 ks2 block w0)
                    = Returned (Some EOF)))"
proof -
  define bc :: uint64 where "bc = word_of_int n"
  from p have rng: "- (2 ^ 63) \<le> n" "n < 2 ^ 63" using ParseInt_range by blast+
  have arg: "blockCountArg (a # rest) = Inr bc"
    using p by (simp add: blockCountArg_def bc_def)
  have u: "uint bc = n + 2 ^ 64"
    unfolding bc_def using rng(1) neg by (rule neg_blockCount)
  have m: "uint bc = n mod 2 ^ 64"
    by (simp add: bc_def uint_word_of_int)
  have big: "2 ^ 63 \<le> uint bc" using u rng(1) by simp
  have sum: "unat (start + bc) = (unat start + unat bc) mod 2 ^ 64"
    by (simp add: unat_word_ariths)
  have wrap: "start + bc < start" if le: "nat (- n) \<le> unat start"
  proof -
    have s: "uint start < 2 ^ 64" using uint_lt2p [of start] by simp
    from le neg have ge: "0 \<le> uint start + n" by (simp add: nat_le_iff)
    have "uint (start + bc) = (uint start + uint bc) mod 2 ^ 64"
      by (simp add: uint_word_ariths)
    also have "\<dots> = (uint start + n + 2 ^ 64) mod 2 ^ 64" using u by (simp add: algebra_simps)
    also have "\<dots> = (uint start + n) mod 2 ^ 64" by simp
    also have "\<dots> = uint start + n" using ge s neg by (intro mod_pos_pos_trivial) simp_all
    finally have "uint (start + bc) < uint start" using neg by simp
    then show ?thesis by (simp add: word_less_def)
  qed
  have stop: "fst (handler E \<lparr>startBlockNum = start, stores = S\<rparr> bc ks1 ks2 block w0)
                    = Returned (Some EOF)"
    if le: "nat (- n) \<le> unat start" and first: "start \<le> Number block"
  proof -
    from wrap [OF le] first have "start + bc \<le> Number block" by simp
    then show ?thesis by (simp add: handler_def case_prod_beta)
  qed
  from arg m big sum wrap stop show ?thesis by blast
qed

theorem negative_block_count_wraps_witness:
  "ParseInt ''-1'' = Some (- 1) \<and> (- 1 :: int) < 0
   \<and> blockCountArg [''-1''] = Inr (word_of_int (- 1))
   \<and> uint (word_of_int (- 1) :: uint64) = 2 ^ 64 - 1
   \<and> nat (- (- 1)) \<le> unat (100 :: uint64)
   \<and> (100 :: uint64) + word_of_int (- 1) < 100
   \<and> fst (handler (sampleEnv []) \<lparr>startBlockNum = 100, stores = set storeNames\<rparr>
             (word_of_int (- 1)) storeNames storeNames \<lparr>Number = 100, Protocol = Some 0\<rparr>
             sampleWorld) = Returned (Some EOF)"
proof -
  have h1: "ParseInt ''-1'' = Some (- 1)" by (simp add: ParseInt_def digit_of_def)
  have h2: "(- 1 :: int) < 0" by simp
  have h3: "nat (- (- 1)) \<le> unat (100 :: uint64)" by simp
  have h4: "(100 :: uint64) \<le> Number \<lparr>Number = 100, Protocol = Some (0::nat)\<rparr>" by simp
  from negative_block_count_wraps [OF h1 h2, where rest = "[]" and start = 100
      and block = "\<lparr>Number = 100, Protocol = Some (0::nat)\<rparr>" and E = "sampleEnv []"
      and S = "set storeNames" and ?ks1.0 = storeNames and ?ks2.0 = storeNames
      and ?w0.0 = sampleWorld]
  obtain bc :: uint64 where
    bc: "blockCountArg [''-1''] = Inr bc" "uint bc = (- 1) mod 2 ^ 64"
        "nat (- (- 1)) \<le> unat (100 :: uint64) \<longrightarrow> 100 + bc < 100
           \<and> ((100 :: uint64) \<le> Number \<lparr>Number = 100, Protocol = Some (0::nat)\<rparr> \<longrightarrow>
               fst (handler (sampleEnv []) \<lparr>startBlockNum = 100, stores = set storeNames\<rparr>
                 bc storeNames storeNames \<lparr>Number = 100, Protocol = Some 0\<rparr> sampleWorld)
               = Returned (Some EOF))"
    by blast
  have eq: "bc = word_of_int (- 1)"
    using bc(1) h1 by (simp add: blockCountArg_def)
  from bc(2) have u: "uint bc = 2 ^ 64 - 1" by simp
  from bc(3) h3 h4 have "100 + bc < 100"
    and "fst (handler (sampleEnv []) \<lparr>startBlockNum = 100, stores = set storeNames\<rparr>
                 bc storeNames storeNames \<lparr>Number = 100, Protocol = Some 0\<rparr> sampleWorld)
               = Returned (Some EOF)"
    by blast+
  with h1 h2 h3 bc(1) u show ?thesis unfolding eq by simp
qed

end
